theory Spec2Isabelle
  imports Main "HOL-Library.Word"
begin

unbundle bit_operations_syntax

section \<open>Machine types\<close>

text \<open>
  The driver works on the fixed-width unsigned types \<open>u8\<close>, \<open>u16\<close> and \<open>u32\<close>.
  Arithmetic on them wraps around, as C's unsigned arithmetic does. A \<open>u8\<close> result that
  the source uses as a truth value (\<open>return 1\<close> / \<open>return 0\<close>) is a \<open>bool\<close> here.
\<close>

type_synonym u8 = "8 word"
type_synonym u16 = "16 word"
type_synonym u32 = "32 word"

section \<open>Byte codec (fat\_load16, fat\_load32, fat\_store32, fat\_memcmp)\<close>

text \<open>
  A pointer into a byte array is a list together with an offset. The 512-byte sector
  buffers are lists of length 512; every function below that indexes a buffer with a
  computed offset checks the offset against 512 first and has no result (\<open>None\<close>)
  where the C code would read or write outside the array.
\<close>

definition fat_load16 :: "u8 list \<Rightarrow> nat \<Rightarrow> u16" where
  "fat_load16 src off = ucast (src ! off) OR push_bit 8 (ucast (src ! (off + 1)))"

definition fat_load32 :: "u8 list \<Rightarrow> nat \<Rightarrow> u32" where
  "fat_load32 src off =
     ucast (src ! off) OR push_bit 8 (ucast (src ! (off + 1))) OR
     push_bit 16 (ucast (src ! (off + 2))) OR push_bit 24 (ucast (src ! (off + 3)))"

definition fat_store32 :: "u8 list \<Rightarrow> nat \<Rightarrow> u32 \<Rightarrow> u8 list" where
  "fat_store32 dest off val =
     dest[off := ucast val, off + 1 := ucast (drop_bit 8 val),
          off + 2 := ucast (drop_bit 16 val), off + 3 := ucast (drop_bit 24 val)]"

text \<open>
  \<open>fat_memcmp\<close>: 1 (\<open>True\<close>) when the \<open>count\<close> bytes at the two pointers agree
  (for \<open>count = 0\<close> at once, otherwise by the do-while loop).
\<close>

fun fat_memcmp :: "u8 list \<Rightarrow> nat \<Rightarrow> u8 list \<Rightarrow> nat \<Rightarrow> nat \<Rightarrow> bool" where
  "fat_memcmp src_1 off_1 src_2 off_2 0 = True"
| "fat_memcmp src_1 off_1 src_2 off_2 (Suc count) =
     (if src_1 ! off_1 \<noteq> src_2 ! off_2 then False
      else fat_memcmp src_1 (Suc off_1) src_2 (Suc off_2) count)"

section \<open>Block device\<close>

text \<open>
  Modelled from the spec: \<open>disk_read\<close> and \<open>disk_write\<close> are declared in
  disk\_interface.h, which is not part of the sources. The spec (sections 5 and 6) gives
  them as sector-addressed, synchronous calls that return success or failure and
  transfer a whole sector or nothing. The device is a map from LBA to sector contents;
  \<open>faults\<close> lists the outcome of the calls still to come (\<open>True\<close>: the call
  fails), and a call on an empty list succeeds.
\<close>

record disk_state =
  sectors :: "u32 \<Rightarrow> u8 list"
  faults :: "bool list"

definition disk_read :: "disk_state \<Rightarrow> u32 \<Rightarrow> u8 list option \<times> disk_state" where
  "disk_read d lba =
     (case faults d of
        [] \<Rightarrow> (Some (sectors d lba), d)
      | f # fs \<Rightarrow> (if f then None else Some (sectors d lba), d\<lparr>faults := fs\<rparr>))"

definition disk_write :: "disk_state \<Rightarrow> u8 list \<Rightarrow> u32 \<Rightarrow> bool \<times> disk_state" where
  "disk_write d buf lba =
     (case faults d of
        [] \<Rightarrow> (True, d\<lparr>sectors := (sectors d)(lba := buf)\<rparr>)
      | f # fs \<Rightarrow>
          (if f then (False, d\<lparr>faults := fs\<rparr>)
           else (True, d\<lparr>sectors := (sectors d)(lba := buf), faults := fs\<rparr>)))"

section \<open>Volume and sector cache (fat\_read, fat\_flush)\<close>

text \<open>
  Modelled from the spec: \<open>struct volume_s\<close> is declared in fat32.h, which is not part
  of the sources. The fields are those of spec section 3 that the source reads and
  writes (the label and the list pointer are left out), with the widths of the values
  \<open>disk_mount\<close> stores in them. The \<open>disk\<close> handle of the struct is the
  \<open>disk_state\<close> that every operation takes and returns beside the volume.
\<close>

record volume_s =
  letter :: char
  sector_size :: u16
  cluster_size :: u8
  total_size :: u32
  info_lba :: u32
  fat_lba :: u32
  data_lba :: u32
  root_lba :: u32
  buffer :: "u8 list"
  buffer_lba :: u32
  buffer_dirty :: bool

definition fat_flush :: "volume_s \<Rightarrow> disk_state \<Rightarrow> bool \<times> volume_s \<times> disk_state" where
  "fat_flush vol d =
     (if buffer_dirty vol then
        (case disk_write d (buffer vol) (buffer_lba vol) of
           (False, d1) \<Rightarrow> (False, vol, d1)
         | (True, d1) \<Rightarrow> (True, vol\<lparr>buffer_dirty := False\<rparr>, d1))
      else (True, vol, d))"

definition fat_read :: "volume_s \<Rightarrow> disk_state \<Rightarrow> u32 \<Rightarrow> bool \<times> volume_s \<times> disk_state" where
  "fat_read vol d lba =
     (if buffer_lba vol = lba then (True, vol, d)
      else
        (case fat_flush vol d of
           (False, vol1, d1) \<Rightarrow> (False, vol1, d1)
         | (True, vol1, d1) \<Rightarrow>
             (case disk_read d1 lba of
                (None, d2) \<Rightarrow> (False, vol1, d2)
              | (Some s, d2) \<Rightarrow> (True, vol1\<lparr>buffer := s, buffer_lba := lba\<rparr>, d2))))"

section \<open>Cluster/sector arithmetic\<close>

text \<open>
  \<open>fat_sect_to_clust\<close> divides by \<open>cluster_size\<close>; a division by zero has no result.
\<close>

definition fat_sect_to_clust :: "volume_s \<Rightarrow> u32 \<Rightarrow> u32 option" where
  "fat_sect_to_clust vol sect =
     (if cluster_size vol = 0 then None
      else Some ((sect - data_lba vol) div ucast (cluster_size vol) + 2))"

definition fat_clust_to_sect :: "volume_s \<Rightarrow> u32 \<Rightarrow> u32" where
  "fat_clust_to_sect vol clust = (clust - 2) * ucast (cluster_size vol) + data_lba vol"

section \<open>Status codes and cursors\<close>

text \<open>
  Modelled from the spec: \<open>fstatus\<close> is an enumeration of fat32.h, which is not part of
  the sources. Its enumerators are the five status codes of spec section 6, in the
  order of that section and under the names the source uses.
\<close>

datatype fstatus =
  FSTATUS_OK | FSTATUS_EOF | FSTATUS_ERROR | FSTATUS_NO_VOLUME | FSTATUS_PATH_ERR

text \<open>
  Modelled from the spec: the enumerator with the value 0, which is what \<open>return 0\<close>
  returns from a function of type \<open>fstatus\<close>. C numbers the enumerators from 0 in the
  order of their declaration, and spec section 6 lists \<open>OK\<close> first.
\<close>

definition fstatus_zero :: fstatus where
  "fstatus_zero = FSTATUS_OK"

text \<open>
  Modelled from the spec: the directory cursor \<open>struct dir_s\<close> and the file cursor
  \<open>struct file_s\<close> are declared in fat32.h, which is not part of the sources. Their
  fields are those of spec section 3: the file cursor has the fields of the directory
  cursor and \<open>glob_offset\<close>. Their \<open>vol\<close> pointer is the volume that the operations
  take and return beside the cursor.
\<close>

record dir_s =
  start_sect :: u32
  sector :: u32
  cluster :: u32
  rw_offset :: u32
  size :: u32

record file_s = dir_s +
  glob_offset :: u32

section \<open>Volume registry and the start of path resolution\<close>

text \<open>The linked list at \<open>volume_base\<close> is the list of mounted volumes.\<close>

fun volume_get :: "volume_s list \<Rightarrow> char \<Rightarrow> volume_s option" where
  "volume_get [] l = None"
| "volume_get (vol # vols) l = (if letter vol = l then Some vol else volume_get vols l)"

text \<open>
  A path is a NUL-terminated C string: the list of its characters, with the terminator
  read at the index after the last one.
\<close>

definition path_char :: "string \<Rightarrow> nat \<Rightarrow> char" where
  "path_char path i = (if i < length path then path ! i else CHR 0x00)"

text \<open>
  \<open>fat_follow_path\<close> up to the walk over the fragments (lines 603 to 624): the volume
  lookup, the seeding of the cursor, and the check of the \<open>:/\<close> after the letter. The
  status is \<open>None\<close> when control goes on to the walk.
\<close>

definition fat_follow_path_seed ::
  "volume_s list \<Rightarrow> dir_s \<Rightarrow> string \<Rightarrow> fstatus option \<times> dir_s \<times> volume_s option" where
  "fat_follow_path_seed vols dir path =
     (case volume_get vols (path_char path 0) of
        None \<Rightarrow> (Some FSTATUS_NO_VOLUME, dir, None)
      | Some vol \<Rightarrow>
          (let dir1 = dir\<lparr>sector := root_lba vol, start_sect := root_lba vol,
                          cluster := fat_clust_to_sect vol (root_lba vol), rw_offset := 0\<rparr>
           in if path_char path 1 \<noteq> CHR '':'' then (Some FSTATUS_PATH_ERR, dir1, Some vol)
              else if path_char path 2 \<noteq> CHR ''/'' then (Some FSTATUS_PATH_ERR, dir1, Some vol)
              else (None, dir1, Some vol)))"

section \<open>BPB validation (fat\_search)\<close>

text \<open>
  Modelled from the spec: the BPB offsets are macros of fat32.h, which is not part of the
  sources. Their values are the ones the spec lists in section 6; \<open>BPB_ROOT_ENT_CNT\<close>
  and \<open>BPB_FAT_SIZE_16\<close> are not in that list and have the offsets of the FAT
  specification it refers to (root entry count at 17, 16-bit FAT size at 22).
\<close>

definition BPB_SECTOR_SIZE :: nat where "BPB_SECTOR_SIZE = 11"
definition BPB_CLUSTER_SIZE :: nat where "BPB_CLUSTER_SIZE = 13"
definition BPB_RSVD_CNT :: nat where "BPB_RSVD_CNT = 14"
definition BPB_NUM_FATS :: nat where "BPB_NUM_FATS = 16"
definition BPB_ROOT_ENT_CNT :: nat where "BPB_ROOT_ENT_CNT = 17"
definition BPB_TOT_SECT_16 :: nat where "BPB_TOT_SECT_16 = 19"
definition BPB_FAT_SIZE_16 :: nat where "BPB_FAT_SIZE_16 = 22"
definition BPB_TOT_SECT_32 :: nat where "BPB_TOT_SECT_32 = 32"
definition BPB_32_FAT_SIZE :: nat where "BPB_32_FAT_SIZE = 36"
definition BPB_16_FSTYPE :: nat where "BPB_16_FSTYPE = 54"
definition BPB_32_FSTYPE :: nat where "BPB_32_FSTYPE = 82"

definition str_FAT :: "u8 list" where
  "str_FAT = [0x46, 0x41, 0x54, 0x00]"

text \<open>
  \<open>root_sectors\<close> is computed in \<open>int\<close>, as C does after promoting the \<open>u16\<close>
  operands, and converted to \<open>u32\<close>. The divisor is \<open>sector_size - 1\<close>, at least
  \<open>-1\<close>: for \<open>-1\<close> the quotient is exact, otherwise both operands are positive, so
  \<open>div\<close> on \<open>int\<close> is C's quotient. A zero divisor, here or in the division by the
  cluster size, has no result.
\<close>

definition fat_search_root_sectors :: "u8 list \<Rightarrow> u32 option" where
  "fat_search_root_sectors bpb =
     (let ent = uint (fat_load16 bpb BPB_ROOT_ENT_CNT);
          ss1 = uint (fat_load16 bpb BPB_SECTOR_SIZE) - 1
      in if ss1 = 0 then None else Some (word_of_int ((ent * 32 + ss1) div ss1)))"

definition fat_search :: "u8 list \<Rightarrow> bool option" where
  "fat_search bpb =
     (if fat_load16 bpb 510 \<noteq> 0xAA55 then Some False
      else if \<not> fat_memcmp bpb BPB_32_FSTYPE str_FAT 0 3 \<and>
              \<not> fat_memcmp bpb BPB_16_FSTYPE str_FAT 0 3 then Some False
      else
        (case fat_search_root_sectors bpb of
           None \<Rightarrow> None
         | Some root_sectors \<Rightarrow>
             (let fat_size =
                    (if fat_load16 bpb BPB_FAT_SIZE_16 \<noteq> 0
                     then ucast (fat_load16 bpb BPB_FAT_SIZE_16)
                     else fat_load32 bpb BPB_32_FAT_SIZE);
                  tot_sect =
                    (if fat_load16 bpb BPB_TOT_SECT_16 \<noteq> 0
                     then ucast (fat_load16 bpb BPB_TOT_SECT_16)
                     else fat_load32 bpb BPB_TOT_SECT_32);
                  data_sectors =
                    tot_sect - (ucast (fat_load16 bpb BPB_RSVD_CNT) +
                                ucast (bpb ! BPB_NUM_FATS) * fat_size + root_sectors)
              in if bpb ! BPB_CLUSTER_SIZE = 0 then None
                 else (let data_clusters = data_sectors div ucast (bpb ! BPB_CLUSTER_SIZE)
                       in if data_clusters < 65525 then Some False else Some True))))"

text \<open>
  The validation as the spec words it (section 4.F, step 5), on natural numbers:
  \<open>root_sectors\<close> is the ceiling of \<open>root_ent_cnt * 32 / sector_size\<close>.
\<close>

definition spec_root_sectors :: "u8 list \<Rightarrow> nat" where
  "spec_root_sectors bpb =
     (unat (fat_load16 bpb BPB_ROOT_ENT_CNT) * 32 + unat (fat_load16 bpb BPB_SECTOR_SIZE) - 1)
       div unat (fat_load16 bpb BPB_SECTOR_SIZE)"

definition spec_data_clusters :: "u8 list \<Rightarrow> nat" where
  "spec_data_clusters bpb =
     (let fat_size =
            (if fat_load16 bpb BPB_FAT_SIZE_16 \<noteq> 0 then unat (fat_load16 bpb BPB_FAT_SIZE_16)
             else unat (fat_load32 bpb BPB_32_FAT_SIZE));
          tot_sect =
            (if fat_load16 bpb BPB_TOT_SECT_16 \<noteq> 0 then unat (fat_load16 bpb BPB_TOT_SECT_16)
             else unat (fat_load32 bpb BPB_TOT_SECT_32))
      in (tot_sect - (unat (fat_load16 bpb BPB_RSVD_CNT) +
                      unat (bpb ! BPB_NUM_FATS) * fat_size + spec_root_sectors bpb))
           div unat (bpb ! BPB_CLUSTER_SIZE))"

definition spec_fat32_accept :: "u8 list \<Rightarrow> bool" where
  "spec_fat32_accept bpb =
     (fat_load16 bpb 510 = 0xAA55 \<and>
      (fat_memcmp bpb BPB_32_FSTYPE str_FAT 0 3 \<or> fat_memcmp bpb BPB_16_FSTYPE str_FAT 0 3) \<and>
      65525 \<le> spec_data_clusters bpb)"

text \<open>
  A FAT32 BPB with 512-byte sectors, one sector per cluster, 32 reserved sectors, two
  FATs of 512 sectors, no root entries and 66581 sectors in total: exactly 65525 data
  clusters.
\<close>

definition bpb_65525 :: "u8 list" where
  "bpb_65525 = (replicate 512 0)
     [11 := 0x00, 12 := 0x02, 13 := 0x01, 14 := 0x20, 16 := 0x02,
      32 := 0x15, 33 := 0x04, 34 := 0x01, 35 := 0x00,
      36 := 0x00, 37 := 0x02, 38 := 0x00, 39 := 0x00,
      82 := 0x46, 83 := 0x41, 84 := 0x54, 85 := 0x33, 86 := 0x32,
      510 := 0x55, 511 := 0xAA]"

section \<open>Rename chain sizing (fat\_dir\_rename)\<close>

text \<open>
  The first part of \<open>fat_dir_rename\<close> (lines 1075 to 1088): the loop that measures the
  name up to the first dot that is not its first character, and \<open>entries_req\<close>. A read
  past the characters of \<open>name\<close> has no result.
\<close>

function rename_name_length :: "string \<Rightarrow> u8 \<Rightarrow> u8 \<Rightarrow> u8 \<Rightarrow> u8 option" where
  "rename_name_length name len i name_length =
     (if i < len then
        (if \<not> unat i < length name then None
         else if name ! unat i = CHR ''.'' \<and> i \<noteq> 0 then Some name_length
         else rename_name_length name len (i + 1) (name_length + 1))
      else Some name_length)"
  by pat_completeness auto
termination
proof (relation "measure (\<lambda>(name, len, i, name_length). unat len - unat i)")
  fix name :: string and len i name_length :: u8
  assume "i < len"
  then have "unat i < unat len" by (simp add: word_less_nat_alt)
  moreover have "unat len < 256"
    using unsigned_less [of len, where 'a = nat] by simp
  ultimately have "unat (i + 1) = unat i + 1"
    by (simp add: unat_word_ariths)
  with \<open>unat i < unat len\<close>
  show "((name, len, i + 1, name_length + 1), (name, len, i, name_length))
          \<in> measure (\<lambda>(name, len, i, name_length). unat len - unat i)"
    by simp
qed simp

definition fat_dir_rename_entries_req :: "string \<Rightarrow> u8 \<Rightarrow> u8 option" where
  "fat_dir_rename_entries_req name len =
     (case rename_name_length name len 0 0 of
        None \<Rightarrow> None
      | Some name_length \<Rightarrow> Some (if 8 < name_length then len div 13 - 1 else 1))"

text \<open>The number of entries as the spec words it: 1 up to 8 characters, else \<open>ceil (L / 13) + 1\<close>.\<close>

definition spec_entries_required :: "nat \<Rightarrow> nat" where
  "spec_entries_required L = (if L \<le> 8 then 1 else (L + 12) div 13 + 1)"

section \<open>FAT table engine (fat\_table\_get, fat\_get\_cluster)\<close>

text \<open>
  Modelled from the spec: the FSInfo offsets are macros of fat32.h, which is not part of
  the sources. The values are the ones of spec section 6 (\<open>free_count\<close> at 488,
  \<open>next_free\<close> at 492).
\<close>

definition INFO_CLUST_CNT :: nat where "INFO_CLUST_CNT = 488"

definition INFO_CLUST_NEXT_FREE :: nat where "INFO_CLUST_NEXT_FREE = 492"

text \<open>
  \<open>fat_table_get\<close>: \<open>None\<close> for the result 0, \<open>Some entry\<close> for the result 1 with the
  entry stored through the out-parameter.
\<close>

definition fat_table_get ::
  "volume_s \<Rightarrow> disk_state \<Rightarrow> u32 \<Rightarrow> u32 option \<times> volume_s \<times> disk_state" where
  "fat_table_get vol d clu =
     (case fat_read vol d (fat_lba vol + clu div 128) of
        (False, vol1, d1) \<Rightarrow> (None, vol1, d1)
      | (True, vol1, d1) \<Rightarrow>
          (Some (fat_load32 (buffer vol1) (unat (clu mod 128) * 4)), vol1, d1))"

text \<open>The end-of-chain test that the chain walks repeat.\<close>

definition is_eoc :: "u32 \<Rightarrow> bool" where
  "is_eoc new_cluster =
     (0xFFFFFF8 \<le> (new_cluster AND 0xFFFFFFF) \<and> (new_cluster AND 0xFFFFFFF) \<le> 0xFFFFFFF)"

text \<open>
  \<open>fat_get_cluster\<close>. \<open>scan_next\<close> is the address step at the end of the loop body
  (\<open>rw += 4\<close>, then the sector overflow check). The \<open>while (1)\<close> loop has no bound, so
  it is a partial function: \<open>None\<close> when the scan never ends or leaves the 512-byte
  buffer. It returns whether the loop was left by \<open>break\<close> (\<open>True\<close>) or by the
  \<open>return 0\<close> of a failed read (\<open>False\<close>), the position \<open>sect\<close>, \<open>rw\<close>, and the
  out-parameter \<open>*cluster\<close> (\<open>None\<close> while it has not been written).
\<close>

definition scan_next :: "volume_s \<Rightarrow> u32 \<Rightarrow> u32 \<Rightarrow> u32 \<times> u32" where
  "scan_next vol sect rw =
     (if ucast (sector_size vol) \<le> rw + 4 then (sect + 1, 0) else (sect, rw + 4))"

partial_function (option) fat_get_cluster_scan ::
  "volume_s \<Rightarrow> disk_state \<Rightarrow> u32 \<Rightarrow> u32 \<Rightarrow> bool \<Rightarrow> u32 option \<Rightarrow>
   (bool \<times> u32 \<times> u32 \<times> u32 option \<times> volume_s \<times> disk_state) option" where
  "fat_get_cluster_scan vol d sect rw match_found clu =
     (case fat_read vol d sect of
        (ok, vol1, d1) \<Rightarrow>
          if \<not> ok then Some (False, sect, rw, clu, vol1, d1)
          else if 512 < unat rw + 4 then None
          else if fat_load32 (buffer vol1) (unat rw) AND 0x7F = 0 then
            (if match_found then Some (True, sect, rw, clu, vol1, d1)
             else fat_get_cluster_scan
                    (vol1\<lparr>buffer := fat_store32 (buffer vol1) (unat rw) 0xFFFFFFF,
                          buffer_dirty := True\<rparr>) d1
                    (fst (scan_next vol1 sect rw)) (snd (scan_next vol1 sect rw)) True
                    (Some (128 * (sect - fat_lba vol1) + rw div 4)))
          else fat_get_cluster_scan vol1 d1
                 (fst (scan_next vol1 sect rw)) (snd (scan_next vol1 sect rw)) match_found clu)"

declare fat_get_cluster_scan.simps [code]

text \<open>
  The function ends after the last \<open>fat_flush\<close> without a \<open>return\<close> statement: the
  first component of the result is \<open>Some False\<close> for \<open>return 0\<close> and \<open>None\<close> when
  control reaches the closing brace, where the function returns no value.
\<close>

definition fat_get_cluster ::
  "volume_s \<Rightarrow> disk_state \<Rightarrow> (bool option \<times> u32 option \<times> volume_s \<times> disk_state) option" where
  "fat_get_cluster vol d =
     (case fat_read vol d (info_lba vol) of
        (False, vol1, d1) \<Rightarrow> Some (Some False, None, vol1, d1)
      | (True, vol1, d1) \<Rightarrow>
          (let next_free = fat_load32 (buffer vol1) INFO_CLUST_NEXT_FREE;
               tot_free = fat_load32 (buffer vol1) INFO_CLUST_CNT
           in case fat_get_cluster_scan vol1 d1 (fat_lba vol1 + next_free div 128)
                     ((next_free mod 128) * 4) False None of
                None \<Rightarrow> None
              | Some (False, sect, rw, clu, vol2, d2) \<Rightarrow> Some (Some False, clu, vol2, d2)
              | Some (True, sect, rw, clu, vol2, d2) \<Rightarrow>
                  (case fat_read vol2 d2 (info_lba vol2) of
                     (False, vol3, d3) \<Rightarrow> Some (Some False, clu, vol3, d3)
                   | (True, vol3, d3) \<Rightarrow>
                       (case fat_flush
                               (vol3\<lparr>buffer :=
                                        fat_store32
                                          (fat_store32 (buffer vol3) INFO_CLUST_NEXT_FREE
                                             (128 * (sect - fat_lba vol3) + rw div 4))
                                          INFO_CLUST_CNT (tot_free - 1),
                                      buffer_dirty := True\<rparr>) d3 of
                          (flushed, vol4, d4) \<Rightarrow> Some (None, clu, vol4, d4)))))"

section \<open>File cursor (fat\_file\_jump, fat\_file\_addr\_resolve, fat\_file\_read)\<close>

text \<open>
  \<open>fat_file_jump\<close>. The loop \<open>while (cluster_offset)\<close> counts \<open>cluster_offset\<close> down,
  so it is a recursion on that number; its status is \<open>None\<close> when the loop ends and
  control goes on, \<open>FSTATUS_ERROR\<close> after a failed read (line 1212) and the status with
  the value 0 for the \<open>return 0\<close> at an end-of-chain entry (line 1217). A division by
  a sector size or cluster size of zero has no result.
\<close>

fun fat_file_jump_walk ::
  "nat \<Rightarrow> volume_s \<Rightarrow> disk_state \<Rightarrow> u32 \<Rightarrow> fstatus option \<times> u32 \<times> volume_s \<times> disk_state" where
  "fat_file_jump_walk 0 vol d clu = (None, clu, vol, d)"
| "fat_file_jump_walk (Suc cluster_offset) vol d clu =
     (case fat_table_get vol d clu of
        (None, vol1, d1) \<Rightarrow> (Some FSTATUS_ERROR, clu, vol1, d1)
      | (Some new_cluster, vol1, d1) \<Rightarrow>
          if is_eoc new_cluster then (Some fstatus_zero, clu, vol1, d1)
          else fat_file_jump_walk cluster_offset vol1 d1 new_cluster)"

definition fat_file_jump ::
  "file_s \<Rightarrow> volume_s \<Rightarrow> disk_state \<Rightarrow> u32 \<Rightarrow>
   (fstatus \<times> file_s \<times> volume_s \<times> disk_state) option" where
  "fat_file_jump file vol d offset =
     (case fat_sect_to_clust vol (start_sect file) of
        None \<Rightarrow> None
      | Some first_cluster \<Rightarrow>
          if sector_size vol = 0 then None
          else
            (let sector_offset = offset div ucast (sector_size vol);
                 cluster_offset = sector_offset div ucast (cluster_size vol)
             in case fat_file_jump_walk (unat cluster_offset) vol d first_cluster of
                  (Some status, clu, vol1, d1) \<Rightarrow> Some (status, file\<lparr>cluster := clu\<rparr>, vol1, d1)
                | (None, clu, vol1, d1) \<Rightarrow>
                    Some (FSTATUS_OK,
                          file\<lparr>cluster := clu,
                               sector := fat_clust_to_sect vol1 clu +
                                         sector_offset mod ucast (cluster_size vol1),
                               rw_offset := offset mod ucast (sector_size vol1),
                               glob_offset := offset\<rparr>,
                          vol1, d1)))"

definition fat_file_addr_resolve ::
  "file_s \<Rightarrow> volume_s \<Rightarrow> disk_state \<Rightarrow> bool \<times> file_s \<times> volume_s \<times> disk_state" where
  "fat_file_addr_resolve file vol d =
     (if ucast (sector_size vol) \<le> rw_offset file then
        (let file1 = file\<lparr>rw_offset := rw_offset file - ucast (sector_size vol),
                          sector := sector file + 1\<rparr>
         in if fat_clust_to_sect vol (cluster file1) + ucast (cluster_size vol) \<le> sector file1 then
              (case fat_table_get vol d (cluster file1) of
                 (None, vol1, d1) \<Rightarrow> (False, file1, vol1, d1)
               | (Some new_cluster, vol1, d1) \<Rightarrow>
                   if is_eoc new_cluster then (False, file1, vol1, d1)
                   else (True, file1\<lparr>cluster := new_cluster,
                                      sector := fat_clust_to_sect vol1 new_cluster\<rparr>, vol1, d1))
            else (True, file1, vol, d))
      else (True, file, vol, d))"

text \<open>
  \<open>fat_file_read\<close>. The caller's buffer is the list of the bytes delivered, \<open>status\<close>
  their count. \<open>fat_file_read_fetch\<close> is the first statement of the loop body (resolve
  the address and reload the buffer when \<open>rw_offset\<close> has reached the sector size; the
  result of \<open>fat_file_addr_resolve\<close> is ignored, as in the source). The loop
  \<open>while (count--)\<close> runs at most \<open>count\<close> times.
\<close>

definition fat_file_read_fetch ::
  "file_s \<Rightarrow> volume_s \<Rightarrow> disk_state \<Rightarrow> bool \<times> file_s \<times> volume_s \<times> disk_state" where
  "fat_file_read_fetch file vol d =
     (if ucast (sector_size vol) \<le> rw_offset file then
        (case fat_file_addr_resolve file vol d of
           (resolved, file1, vol1, d1) \<Rightarrow>
             (case fat_read vol1 d1 (sector file1) of
                (ok, vol2, d2) \<Rightarrow> (ok, file1, vol2, d2)))
      else (True, file, vol, d))"

fun fat_file_read_loop ::
  "nat \<Rightarrow> u32 \<Rightarrow> file_s \<Rightarrow> volume_s \<Rightarrow> disk_state \<Rightarrow> u8 list \<Rightarrow> u32 \<Rightarrow>
   (fstatus \<times> file_s \<times> u8 list \<times> u32 \<times> volume_s \<times> disk_state) option" where
  "fat_file_read_loop 0 file_size file vol d out status =
     Some (FSTATUS_OK, file, out, status, vol, d)"
| "fat_file_read_loop (Suc count) file_size file vol d out status =
     (case fat_file_read_fetch file vol d of
        (False, file1, vol1, d1) \<Rightarrow> Some (FSTATUS_ERROR, file1, out, status, vol1, d1)
      | (True, file1, vol1, d1) \<Rightarrow>
          if \<not> unat (rw_offset file1) < 512 then None
          else
            (let file2 = file1\<lparr>rw_offset := rw_offset file1 + 1,
                               glob_offset := glob_offset file1 + 1\<rparr>;
                 out2 = out @ [buffer vol1 ! unat (rw_offset file1)]
             in if file_size \<le> glob_offset file2
                then Some (FSTATUS_OK, file2, out2, status + 1, vol1, d1)
                else fat_file_read_loop count file_size file2 vol1 d1 out2 (status + 1)))"

definition fat_file_read ::
  "file_s \<Rightarrow> volume_s \<Rightarrow> disk_state \<Rightarrow> u32 \<Rightarrow>
   (fstatus \<times> file_s \<times> u8 list \<times> u32 \<times> volume_s \<times> disk_state) option" where
  "fat_file_read file vol d count =
     (case fat_read vol d (sector file) of
        (False, vol1, d1) \<Rightarrow> Some (FSTATUS_ERROR, file, [], 0, vol1, d1)
      | (True, vol1, d1) \<Rightarrow> fat_file_read_loop (unat count) (size file) file vol1 d1 [] 0)"

section \<open>Directory engine (fat\_dir\_sfn\_crc, fat\_dir\_get\_next, fat\_dir\_read)\<close>

text \<open>
  Modelled from the spec: the offsets and masks of a directory entry are macros of
  fat32.h, which is not part of the sources. Spec section 4.G gives the attribute at
  offset 11 with the LFN pattern \<open>0x0F\<close>, the LFN checksum at offset 13, the sequence
  mask \<open>0x1F\<close> and the size at offset 28; the other SFN fields have their offsets in
  the order that section lists them.
\<close>

definition SFN_ATTR :: nat where "SFN_ATTR = 11"

definition SFN_CTIME_TH :: nat where "SFN_CTIME_TH = 13"

definition SFN_CTIME :: nat where "SFN_CTIME = 14"

definition SFN_CDATE :: nat where "SFN_CDATE = 16"

definition SFN_ADATE :: nat where "SFN_ADATE = 18"

definition SFN_WTIME :: nat where "SFN_WTIME = 22"

definition SFN_WDATE :: nat where "SFN_WDATE = 24"

definition SFN_FILE_SIZE :: nat where "SFN_FILE_SIZE = 28"

definition LFN_CRC :: nat where "LFN_CRC = 13"

definition ATTR_LFN :: u8 where "ATTR_LFN = 0x0F"

definition LFN_SEQ_MSK :: u8 where "LFN_SEQ_MSK = 0x1F"

definition lfn_offsets :: "nat list" where
  "lfn_offsets = [1, 3, 5, 7, 9, 14, 16, 18, 20, 22, 24, 28, 30]"

text \<open>\<open>fat_dir_sfn_crc\<close>: the do-while loop over the 11 bytes of the short name.\<close>

fun sfn_crc_loop :: "nat \<Rightarrow> u8 list \<Rightarrow> nat \<Rightarrow> u8 \<Rightarrow> u8" where
  "sfn_crc_loop 0 sfn off crc = crc"
| "sfn_crc_loop (Suc count) sfn off crc =
     sfn_crc_loop count sfn (Suc off) (push_bit 7 (crc AND 1) + drop_bit 1 crc + sfn ! off)"

definition fat_dir_sfn_crc :: "u8 list \<Rightarrow> nat \<Rightarrow> u8" where
  "fat_dir_sfn_crc sfn off = sfn_crc_loop 11 sfn off 0"

definition fat_dir_get_next ::
  "dir_s \<Rightarrow> volume_s \<Rightarrow> disk_state \<Rightarrow> bool \<times> dir_s \<times> volume_s \<times> disk_state" where
  "fat_dir_get_next dir vol d =
     (let dir1 = dir\<lparr>rw_offset := rw_offset dir + 32\<rparr>
      in if ucast (sector_size vol) \<le> rw_offset dir1 then
           (let dir2 = dir1\<lparr>rw_offset := rw_offset dir1 - ucast (sector_size vol),
                            sector := sector dir1 + 1\<rparr>
            in if fat_clust_to_sect vol (cluster dir2) + ucast (cluster_size vol) \<le> sector dir2 then
                 (case fat_table_get vol d (cluster dir2) of
                    (None, vol1, d1) \<Rightarrow> (False, dir2, vol1, d1)
                  | (Some new_cluster, vol1, d1) \<Rightarrow>
                      if is_eoc new_cluster then (False, dir2, vol1, d1)
                      else (True, dir2\<lparr>cluster := new_cluster,
                                        sector := fat_clust_to_sect vol1 new_cluster\<rparr>, vol1, d1))
               else (True, dir2, vol, d))
         else (True, dir1, vol, d))"

text \<open>
  Modelled from the spec: \<open>struct info_s\<close> is declared in fat32.h, which is not part of
  the sources. Its fields are those of the info record of spec section 3 that
  \<open>fat_dir_read\<close> writes; the field \<open>size\<close> is \<open>file_size\<close> here. The length of the
  array \<open>name\<close> is not in the sources, so \<open>name\<close> is a map from index to character.
\<close>

record info_s =
  name :: "nat \<Rightarrow> u8"
  name_length :: u8
  attribute :: u8
  c_time_tenth :: u8
  c_time :: u16
  c_date :: u16
  w_time :: u16
  w_date :: u16
  a_date :: u16
  file_size :: u32

text \<open>
  The two copy loops of \<open>fat_dir_read\<close>, on the pair of the info record and the local
  counter \<open>name_length\<close> (\<open>name_len\<close> in the loop below).
\<close>

definition lfn_copy_char ::
  "u8 list \<Rightarrow> nat \<Rightarrow> u8 \<Rightarrow> nat \<Rightarrow> info_s \<times> u8 \<Rightarrow> info_s \<times> u8" where
  "lfn_copy_char buf off name_offset i st =
     (let tmp_char = buf ! (off + lfn_offsets ! i)
      in if \<not> (tmp_char = 0x00 \<or> tmp_char = 0xFF)
         then ((fst st)\<lparr>name := (name (fst st))(unat name_offset + i := tmp_char)\<rparr>, snd st + 1)
         else st)"

definition lfn_copy :: "u8 list \<Rightarrow> nat \<Rightarrow> info_s \<times> u8 \<Rightarrow> info_s \<times> u8" where
  "lfn_copy buf off st =
     fold (lfn_copy_char buf off (13 * ((buf ! off AND LFN_SEQ_MSK) - 1))) [0..<13] st"

definition sfn_copy_char :: "u8 list \<Rightarrow> nat \<Rightarrow> nat \<Rightarrow> info_s \<times> u8 \<Rightarrow> info_s \<times> u8" where
  "sfn_copy_char buf off i st =
     ((fst st)\<lparr>name := (name (fst st))(i := buf ! (off + i))\<rparr>, snd st + 1)"

definition sfn_copy :: "u8 list \<Rightarrow> nat \<Rightarrow> info_s \<times> u8 \<Rightarrow> info_s \<times> u8" where
  "sfn_copy buf off st = fold (sfn_copy_char buf off) [0..<11] st"

definition sfn_fields :: "u8 list \<Rightarrow> nat \<Rightarrow> info_s \<times> u8 \<Rightarrow> info_s" where
  "sfn_fields buf off st =
     (fst st)\<lparr>attribute := buf ! (off + SFN_ATTR),
              c_time_tenth := buf ! (off + SFN_CTIME_TH),
              c_time := fat_load16 buf (off + SFN_CTIME),
              c_date := fat_load16 buf (off + SFN_CDATE),
              w_time := fat_load16 buf (off + SFN_WTIME),
              w_date := fat_load16 buf (off + SFN_WDATE),
              a_date := fat_load16 buf (off + SFN_ADATE),
              file_size := fat_load32 buf (off + SFN_FILE_SIZE),
              name_length := snd st\<rparr>"

text \<open>
  \<open>fat_dir_read\<close>. The loop has no bound: it ends at an end marker, at a short entry,
  at a checksum error or at a failed read, and has no result (\<open>None\<close>) when it runs
  forever or leaves the 512-byte buffer. The result of \<open>fat_dir_get_next\<close> is ignored,
  as in the source.
\<close>

partial_function (option) fat_dir_read_loop ::
  "u8 \<Rightarrow> u8 \<Rightarrow> dir_s \<Rightarrow> info_s \<Rightarrow> volume_s \<Rightarrow> disk_state \<Rightarrow>
   (fstatus \<times> dir_s \<times> info_s \<times> volume_s \<times> disk_state) option" where
  "fat_dir_read_loop lfn_crc name_len dir info vol d =
     (case fat_read vol d (sector dir) of
        (ok, vol1, d1) \<Rightarrow>
          if \<not> ok then Some (FSTATUS_ERROR, dir, info, vol1, d1)
          else if 512 < unat (rw_offset dir) + 32 then None
          else if buffer vol1 ! unat (rw_offset dir) = 0x00
          then Some (FSTATUS_EOF, dir, info, vol1, d1)
          else if buffer vol1 ! unat (rw_offset dir) \<noteq> 0xE5 \<and>
                  buffer vol1 ! unat (rw_offset dir) \<noteq> 0x05 then
            (if buffer vol1 ! (unat (rw_offset dir) + SFN_ATTR) AND ATTR_LFN = ATTR_LFN then
               fat_dir_read_loop (buffer vol1 ! (unat (rw_offset dir) + LFN_CRC))
                 (snd (lfn_copy (buffer vol1) (unat (rw_offset dir)) (info, name_len)))
                 (fst (snd (fat_dir_get_next dir vol1 d1)))
                 (fst (lfn_copy (buffer vol1) (unat (rw_offset dir)) (info, name_len)))
                 (fst (snd (snd (fat_dir_get_next dir vol1 d1))))
                 (snd (snd (snd (fat_dir_get_next dir vol1 d1))))
             else if lfn_crc \<noteq> 0 then
               (if lfn_crc \<noteq> fat_dir_sfn_crc (buffer vol1) (unat (rw_offset dir))
                then Some (FSTATUS_ERROR, dir, info, vol1, d1)
                else Some (FSTATUS_OK,
                           fst (snd (fat_dir_get_next dir vol1 d1)),
                           sfn_fields (buffer vol1) (unat (rw_offset dir)) (info, name_len),
                           fst (snd (snd (fat_dir_get_next dir vol1 d1))),
                           snd (snd (snd (fat_dir_get_next dir vol1 d1)))))
             else Some (FSTATUS_OK,
                        fst (snd (fat_dir_get_next dir vol1 d1)),
                        sfn_fields (buffer vol1) (unat (rw_offset dir))
                          (sfn_copy (buffer vol1) (unat (rw_offset dir)) (info, name_len)),
                        fst (snd (snd (fat_dir_get_next dir vol1 d1))),
                        snd (snd (snd (fat_dir_get_next dir vol1 d1)))))
          else fat_dir_read_loop lfn_crc name_len
                 (fst (snd (fat_dir_get_next dir vol1 d1))) info
                 (fst (snd (snd (fat_dir_get_next dir vol1 d1))))
                 (snd (snd (snd (fat_dir_get_next dir vol1 d1)))))"

declare fat_dir_read_loop.simps [code]

definition fat_dir_read ::
  "dir_s \<Rightarrow> info_s \<Rightarrow> volume_s \<Rightarrow> disk_state \<Rightarrow>
   (fstatus \<times> dir_s \<times> info_s \<times> volume_s \<times> disk_state) option" where
  "fat_dir_read dir info vol d = fat_dir_read_loop 0 0 dir info vol d"

section \<open>The seek as the spec words it\<close>

text \<open>
  Spec sections 3, 4.D and 4.I. \<open>fat\<close> maps a cluster to its 32-bit FAT entry. Only the
  low 28 bits of an entry are meaningful: the entry is an end of chain when they are in
  \<open>0xFFFFFF8 .. 0xFFFFFFF\<close>, and otherwise they are the number of the next cluster.
  The seek walks \<open>hops\<close> entries from the file's first cluster and fails when it meets
  an end of chain.
\<close>

definition spec_next_cluster :: "u32 \<Rightarrow> u32 option" where
  "spec_next_cluster entry =
     (if 0xFFFFFF8 \<le> (entry AND 0xFFFFFFF) then None else Some (entry AND 0xFFFFFFF))"

fun spec_chain_walk :: "(u32 \<Rightarrow> u32) \<Rightarrow> nat \<Rightarrow> u32 \<Rightarrow> u32 option" where
  "spec_chain_walk fat 0 clu = Some clu"
| "spec_chain_walk fat (Suc hops) clu =
     (case spec_next_cluster (fat clu) of
        None \<Rightarrow> None
      | Some next_cluster \<Rightarrow> spec_chain_walk fat hops next_cluster)"

definition spec_seek_cluster :: "volume_s \<Rightarrow> (u32 \<Rightarrow> u32) \<Rightarrow> u32 \<Rightarrow> u32 \<Rightarrow> u32 option" where
  "spec_seek_cluster vol fat start offset =
     spec_chain_walk fat
       (unat (offset div ucast (sector_size vol) div ucast (cluster_size vol)))
       ((start - data_lba vol) div ucast (cluster_size vol) + 2)"

section \<open>Cache views\<close>

text \<open>
  Vocabulary of the proofs about operations that go through the sector cache.
  \<open>no_faults\<close>: every device call still to come succeeds. \<open>sectors_512\<close>: every
  sector of the device has 512 bytes. \<open>cache_coherent\<close>: the buffer has 512 bytes and,
  unless it is dirty, holds the device's sector \<open>buffer_lba\<close>. \<open>sector_view\<close>: the
  contents of a sector as the driver sees them, the buffer for the cached sector and the
  device for every other one. \<open>fat_entry\<close>: the FAT entry of a cluster in that view,
  addressed as \<open>fat_table_get\<close> addresses it. \<open>geometry\<close>: the fields of a volume that
  the cache operations leave alone.
\<close>

definition no_faults :: "disk_state \<Rightarrow> bool" where
  "no_faults d = (True \<notin> set (faults d))"

definition sectors_512 :: "disk_state \<Rightarrow> bool" where
  "sectors_512 d = (\<forall>lba. length (sectors d lba) = 512)"

definition cache_coherent :: "volume_s \<Rightarrow> disk_state \<Rightarrow> bool" where
  "cache_coherent vol d =
     (length (buffer vol) = 512 \<and> (buffer_dirty vol \<or> buffer vol = sectors d (buffer_lba vol)))"

definition sector_view :: "volume_s \<Rightarrow> disk_state \<Rightarrow> u32 \<Rightarrow> u8 list" where
  "sector_view vol d lba = (if buffer_lba vol = lba then buffer vol else sectors d lba)"

definition fat_entry :: "volume_s \<Rightarrow> disk_state \<Rightarrow> u32 \<Rightarrow> u32" where
  "fat_entry vol d clu =
     fat_load32 (sector_view vol d (fat_lba vol + clu div 128)) (unat (clu mod 128) * 4)"

definition io_ok :: "volume_s \<Rightarrow> disk_state \<Rightarrow> bool" where
  "io_ok vol d = (no_faults d \<and> sectors_512 d \<and> cache_coherent vol d)"

definition geometry :: "volume_s \<Rightarrow> u16 \<times> u8 \<times> u32 \<times> u32 \<times> u32 \<times> u32" where
  "geometry vol =
     (sector_size vol, cluster_size vol, info_lba vol, fat_lba vol, data_lba vol, root_lba vol)"

section \<open>Sample volumes\<close>

text \<open>
  The volume of the spec's mount scenario: 512-byte sectors, 8 sectors per cluster,
  \<open>fat_lba = 2080\<close>, \<open>data_lba = root_lba = 4128\<close> (root cluster 2), FSInfo at 2049.
\<close>

definition vol_C :: volume_s where
  "vol_C = \<lparr>letter = CHR ''C'', sector_size = 512, cluster_size = 8, total_size = 1048576,
            info_lba = 2049, fat_lba = 2080, data_lba = 4128, root_lba = 4128,
            buffer = replicate 512 0, buffer_lba = 0, buffer_dirty = False\<rparr>"

definition disk_blank :: disk_state where
  "disk_blank = \<lparr>sectors = (\<lambda>lba. replicate 512 0), faults = []\<rparr>"

text \<open>
  Spec scenario 6: FSInfo with \<open>next_free = 10\<close> and \<open>free_count = 50\<close>, and a FAT
  sector whose entries 10 and 17 are free and whose other entries are \<open>0xFFFFFFFF\<close>.
\<close>

definition fat_sector_10_17 :: "u8 list" where
  "fat_sector_10_17 = map (\<lambda>i. if i div 4 = 10 \<or> i div 4 = 17 then 0 else 0xFF) [0..<512]"

definition info_sector_10_50 :: "u8 list" where
  "info_sector_10_50 = (replicate 512 0)[488 := 50, 492 := 10]"

definition disk_alloc :: disk_state where
  "disk_alloc = \<lparr>sectors = (\<lambda>lba. if lba = 2080 then fat_sector_10_17
                             else if lba = 2049 then info_sector_10_50 else replicate 512 0),
                 faults = []\<rparr>"

text \<open>
  Spec scenario 4: a file of 12288 bytes in the chain 2, 5, 9, end of chain.
\<close>

definition fat_sector_chain :: "u8 list" where
  "fat_sector_chain =
     (replicate 512 0)[8 := 5, 20 := 9, 36 := 0xFF, 37 := 0xFF, 38 := 0xFF, 39 := 0x0F]"

definition disk_chain :: disk_state where
  "disk_chain = \<lparr>sectors = (\<lambda>lba. if lba = 2080 then fat_sector_chain else replicate 512 0),
                 faults = []\<rparr>"

definition file_chain :: file_s where
  "file_chain = \<lparr>start_sect = 4128, sector = 4128, cluster = 2, rw_offset = 0, size = 12288,
                 glob_offset = 0\<rparr>"

text \<open>
  The same chain with the reserved top bits of the entry of cluster 2 set
  (\<open>0x10000005\<close>): by spec section 3 the next cluster is still 5.
\<close>

definition disk_chain_reserved :: disk_state where
  "disk_chain_reserved =
     \<lparr>sectors = (\<lambda>lba. if lba = 2080 then fat_sector_chain[11 := 0x10] else replicate 512 0),
      faults = []\<rparr>"

text \<open>A file of 100 bytes in cluster 3 (spec scenario 5).\<close>

definition file_100 :: file_s where
  "file_100 = \<lparr>start_sect = 4136, sector = 4136, cluster = 3, rw_offset = 0, size = 100,
               glob_offset = 0\<rparr>"

text \<open>
  A root directory sector with one LFN slot (sequence \<open>0x41\<close>, name \<open>hello.txt\<close>,
  checksum byte 0) followed by the short entry \<open>HELLO   TXT\<close>, whose checksum is 241.
\<close>

definition dir_sector_lfn0 :: "u8 list" where
  "dir_sector_lfn0 = (replicate 512 0)
     [0 := 0x41, 1 := 0x68, 3 := 0x65, 5 := 0x6C, 7 := 0x6C, 9 := 0x6F, 11 := 0x0F, 13 := 0x00,
      14 := 0x2E, 16 := 0x74, 18 := 0x78, 20 := 0x74,
      32 := 0x48, 33 := 0x45, 34 := 0x4C, 35 := 0x4C, 36 := 0x4F, 37 := 0x20, 38 := 0x20,
      39 := 0x20, 40 := 0x54, 41 := 0x58, 42 := 0x54, 43 := 0x20]"

definition disk_dir :: disk_state where
  "disk_dir = \<lparr>sectors = (\<lambda>lba. if lba = 4128 then dir_sector_lfn0 else replicate 512 0),
               faults = []\<rparr>"

definition dir_root :: dir_s where
  "dir_root = \<lparr>start_sect = 4128, sector = 4128, cluster = 2, rw_offset = 0, size = 0\<rparr>"

definition info_blank :: info_s where
  "info_blank = \<lparr>name = (\<lambda>i. 0), name_length = 0, attribute = 0, c_time_tenth = 0, c_time = 0,
                 c_date = 0, w_time = 0, w_date = 0, a_date = 0, file_size = 0\<rparr>"

section \<open>Properties of the sector cache\<close>

lemma fat_flush_clean: "\<not> buffer_dirty vol \<Longrightarrow> fat_flush vol d = (True, vol, d)"
  by (simp add: fat_flush_def)

text \<open>
  C7, as the code has it, case by case on the results of the device calls. A cache hit
  succeeds with no device call. On a miss with a clean buffer the sector is read: a
  read that succeeds gives success with the sector in \<open>buffer\<close> and \<open>buffer_lba = lba\<close>,
  a read that fails gives failure with the volume unchanged. On a miss with a dirty
  buffer the buffer is written to \<open>buffer_lba\<close> first. When that write fails, the call
  fails with the volume unchanged (the flag still set) and nothing written. When it
  succeeds, the device holds the buffer at \<open>buffer_lba\<close>, the flag is cleared and the
  sector is read from the device as the write left it: a read that succeeds gives
  success with the sector in \<open>buffer\<close> and \<open>buffer_lba = lba\<close>, a read that fails gives
  failure with \<open>buffer\<close> and \<open>buffer_lba\<close> unchanged and the flag clear.
\<close>

theorem fat_read_cache_steps:
  "(buffer_lba vol = lba \<longrightarrow> fat_read vol d lba = (True, vol, d)) \<and>
   (buffer_lba vol \<noteq> lba \<and> \<not> buffer_dirty vol \<and> disk_read d lba = (Some s, dr) \<longrightarrow>
      fat_read vol d lba = (True, vol\<lparr>buffer := s, buffer_lba := lba\<rparr>, dr) \<and>
      s = sectors d lba \<and> sectors dr = sectors d) \<and>
   (buffer_lba vol \<noteq> lba \<and> \<not> buffer_dirty vol \<and> disk_read d lba = (None, dr) \<longrightarrow>
      fat_read vol d lba = (False, vol, dr) \<and> sectors dr = sectors d) \<and>
   (buffer_lba vol \<noteq> lba \<and> buffer_dirty vol \<and>
    disk_write d (buffer vol) (buffer_lba vol) = (False, dw) \<longrightarrow>
      fat_read vol d lba = (False, vol, dw) \<and> sectors dw = sectors d) \<and>
   (buffer_lba vol \<noteq> lba \<and> buffer_dirty vol \<and>
    disk_write d (buffer vol) (buffer_lba vol) = (True, dw) \<and> disk_read dw lba = (None, dr) \<longrightarrow>
      fat_read vol d lba = (False, vol\<lparr>buffer_dirty := False\<rparr>, dr) \<and>
      sectors dr = (sectors d)(buffer_lba vol := buffer vol)) \<and>
   (buffer_lba vol \<noteq> lba \<and> buffer_dirty vol \<and>
    disk_write d (buffer vol) (buffer_lba vol) = (True, dw) \<and> disk_read dw lba = (Some s, dr) \<longrightarrow>
      fat_read vol d lba =
        (True, vol\<lparr>buffer := s, buffer_lba := lba, buffer_dirty := False\<rparr>, dr) \<and>
      s = sectors d lba \<and> sectors dr = (sectors d)(buffer_lba vol := buffer vol))"
  by (auto simp: fat_read_def fat_flush_def disk_read_def disk_write_def
           split: list.splits if_splits)

theorem fat_read_cache_steps_witness:
  "fat_read vol_C disk_blank 0 = (True, vol_C, disk_blank) \<and>
   fat_read vol_C disk_blank 7 = (True, vol_C\<lparr>buffer_lba := 7\<rparr>, disk_blank) \<and>
   fat_read vol_C (disk_blank\<lparr>faults := [True]\<rparr>) 7 = (False, vol_C, disk_blank) \<and>
   fat_read (vol_C\<lparr>buffer_dirty := True\<rparr>) (disk_blank\<lparr>faults := [True]\<rparr>) 7 =
     (False, vol_C\<lparr>buffer_dirty := True\<rparr>, disk_blank) \<and>
   fat_read (vol_C\<lparr>buffer_dirty := True\<rparr>) (disk_blank\<lparr>faults := [False, True]\<rparr>) 7 =
     (False, vol_C, disk_blank) \<and>
   fat_read (vol_C\<lparr>buffer_dirty := True\<rparr>) disk_blank 7 =
     (True, vol_C\<lparr>buffer_lba := 7\<rparr>, disk_blank)"
proof -
  let ?dv = "vol_C\<lparr>buffer_dirty := True\<rparr>"
  let ?z = "replicate 512 (0 :: u8)"
  have w: "(sectors disk_blank)(0 := ?z) = sectors disk_blank"
    by (auto simp: disk_blank_def)
  have hit: "buffer_lba vol_C = 0" by (simp add: vol_C_def)
  have miss: "buffer_lba vol_C \<noteq> 7" "buffer_lba ?dv \<noteq> 7" by (simp_all add: vol_C_def)
  have clean: "\<not> buffer_dirty vol_C" by (simp add: vol_C_def)
  have dirty: "buffer_dirty ?dv" by simp
  have r_ok: "disk_read disk_blank 7 = (Some ?z, disk_blank)"
    by (simp add: disk_read_def disk_blank_def)
  have r_fail: "disk_read (disk_blank\<lparr>faults := [True]\<rparr>) 7 = (None, disk_blank)"
    by (simp add: disk_read_def disk_blank_def)
  have w_ok: "disk_write disk_blank (buffer ?dv) (buffer_lba ?dv) = (True, disk_blank)"
    using w by (simp add: disk_write_def vol_C_def disk_blank_def)
  have w_fail: "disk_write (disk_blank\<lparr>faults := [True]\<rparr>) (buffer ?dv) (buffer_lba ?dv) =
                  (False, disk_blank)"
    by (simp add: disk_write_def disk_blank_def)
  have w_ok2: "disk_write (disk_blank\<lparr>faults := [False, True]\<rparr>) (buffer ?dv) (buffer_lba ?dv) =
                 (True, disk_blank\<lparr>faults := [True]\<rparr>)"
    using w by (simp add: disk_write_def vol_C_def disk_blank_def)
  have b: "vol_C\<lparr>buffer := ?z, buffer_lba := 7\<rparr> = vol_C\<lparr>buffer_lba := 7\<rparr>"
    "?dv\<lparr>buffer := ?z, buffer_lba := 7, buffer_dirty := False\<rparr> = vol_C\<lparr>buffer_lba := 7\<rparr>"
    "?dv\<lparr>buffer_dirty := False\<rparr> = vol_C"
    by (simp_all add: vol_C_def)
  have "fat_read vol_C disk_blank 0 = (True, vol_C, disk_blank)"
    using fat_read_cache_steps [where vol = vol_C and lba = 0 and d = disk_blank] hit
    by blast
  moreover have "fat_read vol_C disk_blank 7 = (True, vol_C\<lparr>buffer_lba := 7\<rparr>, disk_blank)"
    using fat_read_cache_steps [where vol = vol_C and lba = 7 and d = disk_blank and s = ?z
                                  and dr = disk_blank] miss(1) clean r_ok b(1)
    by simp
  moreover have "fat_read vol_C (disk_blank\<lparr>faults := [True]\<rparr>) 7 = (False, vol_C, disk_blank)"
    using fat_read_cache_steps [where vol = vol_C and lba = 7
                                  and d = "disk_blank\<lparr>faults := [True]\<rparr>" and dr = disk_blank]
          miss(1) clean r_fail
    by simp
  moreover have "fat_read ?dv (disk_blank\<lparr>faults := [True]\<rparr>) 7 = (False, ?dv, disk_blank)"
    using fat_read_cache_steps [where vol = ?dv and lba = 7
                                  and d = "disk_blank\<lparr>faults := [True]\<rparr>" and dw = disk_blank]
          miss(2) dirty w_fail
    by simp
  moreover have "fat_read ?dv (disk_blank\<lparr>faults := [False, True]\<rparr>) 7 =
                   (False, vol_C, disk_blank)"
    using fat_read_cache_steps [where vol = ?dv and lba = 7
                                  and d = "disk_blank\<lparr>faults := [False, True]\<rparr>"
                                  and dw = "disk_blank\<lparr>faults := [True]\<rparr>" and dr = disk_blank]
          miss(2) dirty w_ok2 r_fail b(3)
    by simp
  moreover have "fat_read ?dv disk_blank 7 = (True, vol_C\<lparr>buffer_lba := 7\<rparr>, disk_blank)"
    using fat_read_cache_steps [where vol = ?dv and lba = 7 and d = disk_blank
                                  and dw = disk_blank and s = ?z and dr = disk_blank]
          miss(2) dirty w_ok r_ok b(2)
    by simp
  ultimately show ?thesis by blast
qed

text \<open>
  C7 as the spec states it fails: with a dirty buffer, a write-back that succeeds and a
  read that fails, \<open>fat_read\<close> returns failure and the cache state has changed
  (\<open>buffer_dirty\<close> went from set to clear).
\<close>

theorem fat_read_failure_changes_cache:
  "fst (fat_read (vol_C\<lparr>buffer_dirty := True\<rparr>) (disk_blank\<lparr>faults := [False, True]\<rparr>) 7) = False \<and>
   buffer_dirty (vol_C\<lparr>buffer_dirty := True\<rparr>) = True \<and>
   buffer_dirty (fst (snd (fat_read (vol_C\<lparr>buffer_dirty := True\<rparr>)
                               (disk_blank\<lparr>faults := [False, True]\<rparr>) 7))) = False"
  by (simp add: fat_read_def fat_flush_def disk_read_def disk_write_def vol_C_def disk_blank_def)

section \<open>Cluster/sector round trip\<close>

text \<open>
  C8, as the code has it: for every cluster \<open>\<ge> 2\<close> and every sector offset below the
  cluster size, mapping the cluster to its first sector, adding the offset and mapping
  back gives the cluster, provided the sector offset \<open>(cluster - 2) * cluster_size +
  sector_off\<close> of the sector within the data region fits in 32 bits.
\<close>

theorem clust_sect_roundtrip:
  assumes "2 \<le> clust"
    and "sector_off < ucast (cluster_size vol)"
    and "unat (clust - 2) * unat (cluster_size vol) + unat sector_off < 2 ^ 32"
  shows "fat_sect_to_clust vol (fat_clust_to_sect vol clust + sector_off) = Some clust"
proof -
  let ?cs = "ucast (cluster_size vol) :: u32"
  let ?x = "clust - 2"
  have "unat (cluster_size vol) < 256"
    using unsigned_less [of "cluster_size vol", where 'a = nat] by simp
  then have ucs: "unat ?cs = unat (cluster_size vol)"
    by (simp add: unsigned_ucast_eq take_bit_nat_eq_self)
  have so: "unat sector_off < unat ?cs"
    using assms(2) by (simp add: word_less_nat_alt)
  then have cs_pos: "0 < unat (cluster_size vol)"
    using ucs by simp
  then have cs_nz: "cluster_size vol \<noteq> 0"
    by (auto simp: unat_gt_0)
  have m: "unat (?x * ?cs) = unat ?x * unat ?cs"
    using assms(3) ucs by (simp add: unat_mult_lem [THEN iffD1])
  have s: "unat (?x * ?cs + sector_off) = unat ?x * unat ?cs + unat sector_off"
    using assms(3) m ucs by (simp add: unat_add_lem [THEN iffD1])
  have "unat ((?x * ?cs + sector_off) div ?cs) = unat ?x"
    using so by (simp add: unat_div s)
  then have q: "(?x * ?cs + sector_off) div ?cs = ?x"
    by (simp add: word_unat_eq_iff)
  have "?x * ?cs + data_lba vol + sector_off - data_lba vol = ?x * ?cs + sector_off"
    by simp
  with q cs_nz show ?thesis
    by (simp add: fat_sect_to_clust_def fat_clust_to_sect_def)
qed

theorem clust_sect_roundtrip_witness:
  "(2::u32) \<le> 5 \<and> (3::u32) < ucast (cluster_size vol_C) \<and>
   fat_sect_to_clust vol_C (fat_clust_to_sect vol_C 5 + 3) = Some 5"
proof -
  have a: "(2::u32) \<le> 5" by simp
  have b: "(3::u32) < ucast (cluster_size vol_C)" by (simp add: vol_C_def)
  have c: "unat ((5::u32) - 2) * unat (cluster_size vol_C) + unat (3::u32) < 2 ^ 32"
    by (simp add: vol_C_def)
  from clust_sect_roundtrip [OF a b c] a b show ?thesis by simp
qed

text \<open>
  C8 as the spec states it, for every cluster \<open>\<ge> 2\<close>, fails where the multiplication
  wraps: with 8 sectors per cluster, cluster \<open>0x20000002\<close> maps to the first data
  sector, and that sector maps back to cluster 2.
\<close>

theorem clust_sect_roundtrip_wraps:
  "(2::u32) \<le> 0x20000002 \<and> (0::u32) < ucast (cluster_size vol_C) \<and>
   fat_sect_to_clust vol_C (fat_clust_to_sect vol_C 0x20000002 + 0) = Some 2 \<and>
   (2::u32) \<noteq> 0x20000002"
  by (simp add: fat_sect_to_clust_def fat_clust_to_sect_def vol_C_def)

section \<open>Seeding of the directory cursor\<close>

text \<open>
  What the first part of \<open>fat_follow_path\<close> does for every path \<open>L:/...\<close> whose
  letter names a mounted volume: \<open>cluster\<close> is set to \<open>fat_clust_to_sect\<close> of
  \<open>root_lba\<close>.
\<close>

lemma fat_follow_path_seed_fields:
  assumes "volume_get vols (path_char path 0) = Some vol"
    and "path_char path 1 = CHR '':''" and "path_char path 2 = CHR ''/''"
  shows "fat_follow_path_seed vols dir path =
           (None, dir\<lparr>sector := root_lba vol, start_sect := root_lba vol,
                       cluster := fat_clust_to_sect vol (root_lba vol), rw_offset := 0\<rparr>,
            Some vol)"
  using assms by (simp add: fat_follow_path_seed_def)

text \<open>
  C1 at the volume of the spec's mount scenario and the path \<open>C:/alpha/\<close>:
  \<open>fat_follow_path\<close> sets \<open>sector\<close> and \<open>start_sect\<close> to \<open>root_lba = 4128\<close> and
  \<open>rw_offset\<close> to 0, but \<open>cluster\<close> to \<open>fat_clust_to_sect vol root_lba = 37136\<close>, where
  the root cluster (\<open>fat_sect_to_clust\<close> of \<open>root_lba\<close>) is 2.
\<close>

theorem fat_follow_path_seed_cluster:
  "fat_follow_path_seed [vol_C] dir ''C:/alpha/'' =
     (None, dir\<lparr>sector := 4128, start_sect := 4128, cluster := 37136, rw_offset := 0\<rparr>,
      Some vol_C) \<and>
   fat_sect_to_clust vol_C (root_lba vol_C) = Some 2"
  by (simp add: fat_follow_path_seed_def path_char_def fat_clust_to_sect_def
                fat_sect_to_clust_def vol_C_def)

section \<open>BPB validation at the FAT32 threshold\<close>

lemmas BPB_offsets =
  BPB_SECTOR_SIZE_def BPB_CLUSTER_SIZE_def BPB_RSVD_CNT_def BPB_NUM_FATS_def
  BPB_ROOT_ENT_CNT_def BPB_TOT_SECT_16_def BPB_FAT_SIZE_16_def BPB_TOT_SECT_32_def
  BPB_32_FAT_SIZE_def BPB_16_FSTYPE_def BPB_32_FSTYPE_def

lemma bpb_65525_fields:
  "fat_load16 bpb_65525 510 = 0xAA55"
  "fat_load16 bpb_65525 BPB_ROOT_ENT_CNT = 0"
  "fat_load16 bpb_65525 BPB_SECTOR_SIZE = 512"
  "fat_load16 bpb_65525 BPB_FAT_SIZE_16 = 0"
  "fat_load16 bpb_65525 BPB_TOT_SECT_16 = 0"
  "fat_load16 bpb_65525 BPB_RSVD_CNT = 32"
  "fat_load32 bpb_65525 BPB_32_FAT_SIZE = 512"
  "fat_load32 bpb_65525 BPB_TOT_SECT_32 = 66581"
  "bpb_65525 ! BPB_NUM_FATS = 2"
  "bpb_65525 ! BPB_CLUSTER_SIZE = 1"
  by (simp_all add: bpb_65525_def fat_load16_def fat_load32_def BPB_offsets)

lemma bpb_65525_fat: "fat_memcmp bpb_65525 BPB_32_FSTYPE str_FAT 0 3"
  by code_simp

lemma bpb_65525_length: "length bpb_65525 = 512"
  by (simp add: bpb_65525_def)

text \<open>
  C5 at a BPB with exactly 65525 data clusters: the spec's computation
  (\<open>root_sectors = 0\<close>) accepts the volume, \<open>fat_search\<close> computes \<open>root_sectors = 1\<close>
  (it divides by \<open>sector_size - 1\<close>), finds 65524 data clusters and returns 0.
\<close>

theorem fat_search_rejects_65525:
  "length bpb_65525 = 512 \<and> spec_root_sectors bpb_65525 = 0 \<and>
   spec_data_clusters bpb_65525 = 65525 \<and> spec_fat32_accept bpb_65525 \<and>
   fat_search_root_sectors bpb_65525 = Some 1 \<and> fat_search bpb_65525 = Some False"
  by (simp add: fat_search_def fat_search_root_sectors_def spec_fat32_accept_def
                spec_data_clusters_def spec_root_sectors_def bpb_65525_fields bpb_65525_fat
                bpb_65525_length)

section \<open>Rename chain sizing\<close>

text \<open>
  C4 at the nine-character name \<open>abcdefghi\<close>: the spec requires
  \<open>ceil (9 / 13) + 1 = 2\<close> entries, \<open>fat_dir_rename\<close> computes \<open>9 / 13 - 1\<close>, which is
  255 in a \<open>u8\<close>.
\<close>

theorem fat_dir_rename_entries_req_9:
  "fat_dir_rename_entries_req ''abcdefghi'' 9 = Some 255 \<and> spec_entries_required 9 = 2"
  by code_simp

section \<open>Word arithmetic of the FAT addressing\<close>

lemma unat_u32_less: "unat (c :: u32) < 4294967296"
  using unsigned_less [of c, where 'a = nat] by simp

lemma unat_div128: "unat ((c :: u32) div 128) = unat c div 128"
  by (simp add: unat_div)

lemma unat_mod128: "unat ((c :: u32) mod 128) = unat c mod 128"
  by (simp add: unat_mod)

lemma unat_fat_off: "unat (((c :: u32) mod 128) * 4) = unat c mod 128 * 4"
proof -
  have "unat (c mod 128) * unat (4 :: u32) < 2 ^ LENGTH(32)"
    by (simp add: unat_mod128) 
  then have "unat ((c mod 128) * 4) = unat (c mod 128) * unat (4 :: u32)"
    by (simp only: unat_mult_lem [THEN iffD1])
  then show ?thesis by (simp add: unat_mod128)
qed

lemma unat_suc_word: "(c :: u32) < c' \<Longrightarrow> unat (c + 1) = unat c + 1"
proof -
  assume "c < c'"
  then have "unat c < unat c'" by (simp add: word_less_nat_alt)
  with unat_u32_less [of c'] have "unat c + unat (1 :: u32) < 2 ^ LENGTH(32)" by simp
  then have "unat (c + 1) = unat c + unat (1 :: u32)"
    by (simp only: unat_add_lem [THEN iffD1])
  then show ?thesis by simp
qed

lemma pos_cluster: "128 * ((fl + (c :: u32) div 128) - fl) + ((c mod 128) * 4) div 4 = c"
proof -
  have a: "unat (((c mod 128) * 4) div 4) = unat c mod 128"
    by (simp add: unat_div unat_fat_off)
  have "unat (128 :: u32) * unat (c div 128) < 2 ^ LENGTH(32)"
    using unat_u32_less [of c] by (simp add: unat_div128)
  then have b: "unat (128 * (c div 128)) = 128 * (unat c div 128)"
    by (simp add: unat_mult_lem [THEN iffD1] unat_div128)
  have "unat (128 * (c div 128)) + unat (((c mod 128) * 4) div 4) < 2 ^ LENGTH(32)"
    using unat_u32_less [of c] by (simp add: a b)
  then have "unat (128 * (c div 128) + ((c mod 128) * 4) div 4) = unat c"
    by (simp add: unat_add_lem [THEN iffD1] a b)
  then have "128 * (c div 128) + ((c mod 128) * 4) div 4 = c"
    by (simp add: word_unat_eq_iff)
  then show ?thesis by simp
qed

lemma nat_step_wrap:
  "(n :: nat) mod 128 = 127 \<Longrightarrow> (n + 1) div 128 = n div 128 + 1 \<and> (n + 1) mod 128 = 0"
  by (simp add: mod_Suc div_Suc)

lemma nat_step_same:
  "(n :: nat) mod 128 \<noteq> 127 \<Longrightarrow> (n + 1) div 128 = n div 128 \<and> (n + 1) mod 128 = n mod 128 + 1"
  by (simp add: mod_Suc div_Suc)

lemma unat_off4: "unat (((c :: u32) mod 128) * 4 + 4) = unat c mod 128 * 4 + 4"
proof -
  have "unat ((c mod 128) * 4) + unat (4 :: u32) < 2 ^ LENGTH(32)"
    by (simp add: unat_fat_off)
  then have "unat ((c mod 128) * 4 + 4) = unat ((c mod 128) * 4) + unat (4 :: u32)"
    by (simp only: unat_add_lem [THEN iffD1])
  then show ?thesis by (simp add: unat_fat_off)
qed

lemma unat_div128_suc: "unat ((c :: u32) div 128 + 1) = unat c div 128 + 1"
proof -
  have "unat (c div 128) + unat (1 :: u32) < 2 ^ LENGTH(32)"
    using unat_u32_less [of c] by (simp add: unat_div128)
  then have "unat (c div 128 + 1) = unat (c div 128) + unat (1 :: u32)"
    by (simp only: unat_add_lem [THEN iffD1])
  then show ?thesis by (simp add: unat_div128)
qed

lemma scan_pos_wrap:
  assumes "(c :: u32) < c'" and "unat c mod 128 = 127"
  shows "(512 :: u32) \<le> (c mod 128) * 4 + 4" and "(c + 1) div 128 = c div 128 + 1"
    and "(c + 1) mod 128 = 0"
proof -
  have s: "unat (c + 1) = unat c + 1" by (rule unat_suc_word [OF assms(1)])
  have "unat (512 :: u32) \<le> unat ((c mod 128) * 4 + 4)"
    unfolding unat_off4 using assms(2) by simp
  then show "(512 :: u32) \<le> (c mod 128) * 4 + 4" by (simp add: word_le_nat_alt)
  have "unat ((c + 1) div 128) = unat (c div 128 + 1)"
    unfolding unat_div128_suc unat_div128 s using nat_step_wrap [OF assms(2)] by simp
  then show "(c + 1) div 128 = c div 128 + 1" by (simp add: word_unat_eq_iff)
  have "unat ((c + 1) mod 128) = unat (0 :: u32)"
    unfolding unat_mod128 s using nat_step_wrap [OF assms(2)] by simp
  then show "(c + 1) mod 128 = 0" by (simp add: word_unat_eq_iff)
qed

lemma scan_pos_same:
  assumes "(c :: u32) < c'" and "unat c mod 128 \<noteq> 127"
  shows "\<not> (512 :: u32) \<le> (c mod 128) * 4 + 4" and "(c + 1) div 128 = c div 128"
    and "((c + 1) mod 128) * 4 = (c mod 128) * 4 + 4"
proof -
  have s: "unat (c + 1) = unat c + 1" by (rule unat_suc_word [OF assms(1)])
  have "unat c mod 128 < 127" using assms(2) by arith
  then have "\<not> unat (512 :: u32) \<le> unat ((c mod 128) * 4 + 4)"
    unfolding unat_off4 by simp
  then show "\<not> (512 :: u32) \<le> (c mod 128) * 4 + 4" by (simp add: word_le_nat_alt)
  have "unat ((c + 1) div 128) = unat (c div 128)"
    unfolding unat_div128 s using nat_step_same [OF assms(2)] by simp
  then show "(c + 1) div 128 = c div 128" by (simp add: word_unat_eq_iff)
  have "unat (((c + 1) mod 128) * 4) = unat ((c mod 128) * 4 + 4)"
    unfolding unat_off4 unat_fat_off s using nat_step_same [OF assms(2)] by simp
  then show "((c + 1) mod 128) * 4 = (c mod 128) * 4 + 4" by (simp add: word_unat_eq_iff)
qed

lemma scan_pos_step:
  assumes "(c :: u32) < c'"
  shows "(if (512 :: u32) \<le> (c mod 128) * 4 + 4 then (fl + c div 128 + 1, 0)
          else (fl + c div 128, (c mod 128) * 4 + 4)) =
         (fl + (c + 1) div 128, ((c + 1) mod 128) * 4)"
proof (cases "unat c mod 128 = 127")
  case True
  from scan_pos_wrap [OF assms True] show ?thesis
    by (simp only: if_True mult_zero_left add.assoc)
next
  case False
  from scan_pos_same [OF assms False] show ?thesis
    by (simp only: if_False)
qed

lemma same_sector_offsets:
  assumes "(x :: u32) \<noteq> y" and "x div 128 = y div 128"
  shows "unat (y mod 128) * 4 + 4 \<le> unat (x mod 128) * 4 \<or>
         unat (x mod 128) * 4 + 4 \<le> unat (y mod 128) * 4"
proof -
  from assms(1) have "unat x \<noteq> unat y" by (simp add: word_unat_eq_iff)
  moreover from assms(2) have "unat x div 128 = unat y div 128"
    by (metis unat_div128)
  ultimately have "unat x mod 128 \<noteq> unat y mod 128"
    by (metis div_mult_mod_eq)
  then show ?thesis by (simp add: unat_mod128) arith
qed

section \<open>The cache when every device call succeeds\<close>

lemma disk_read_no_faults:
  "no_faults d \<Longrightarrow> \<exists>d'. disk_read d lba = (Some (sectors d lba), d') \<and> no_faults d' \<and> sectors d' = sectors d"
  by (auto simp: disk_read_def no_faults_def split: list.splits)

lemma disk_write_no_faults:
  "no_faults d \<Longrightarrow> \<exists>d'. disk_write d buf lba = (True, d') \<and> no_faults d' \<and> sectors d' = (sectors d)(lba := buf)"
  by (auto simp: disk_write_def no_faults_def split: list.splits)

lemma fat_flush_io_ok:
  assumes "io_ok vol d"
  shows "\<exists>d'. fat_flush vol d = (True, vol\<lparr>buffer_dirty := False\<rparr>, d') \<and>
          io_ok (vol\<lparr>buffer_dirty := False\<rparr>) d' \<and>
          sector_view (vol\<lparr>buffer_dirty := False\<rparr>) d' = sector_view vol d \<and>
          sectors d' (buffer_lba vol) = buffer vol \<and>
          (\<forall>lba. lba \<noteq> buffer_lba vol \<longrightarrow> sectors d' lba = sectors d lba)"
proof (cases "buffer_dirty vol")
  case True
  from assms have nf: "no_faults d" by (simp add: io_ok_def)
  from disk_write_no_faults [OF nf, of "buffer vol" "buffer_lba vol"]
  obtain d' where w: "disk_write d (buffer vol) (buffer_lba vol) = (True, d')"
    and nf': "no_faults d'" and s': "sectors d' = (sectors d)(buffer_lba vol := buffer vol)"
    by blast
  from assms have "io_ok (vol\<lparr>buffer_dirty := False\<rparr>) d'"
    by (auto simp: io_ok_def nf' s' sectors_512_def cache_coherent_def)
  moreover have "sector_view (vol\<lparr>buffer_dirty := False\<rparr>) d' = sector_view vol d"
    by (auto simp: sector_view_def s' fun_eq_iff)
  ultimately show ?thesis using True w s'
    by (auto simp: fat_flush_def)
next
  case False
  have e: "vol\<lparr>buffer_dirty := False\<rparr> = vol" using False by simp
  from False assms show ?thesis
    by (auto simp: fat_flush_def e io_ok_def cache_coherent_def)
qed

lemma fat_read_io_ok:
  assumes "io_ok vol d"
  shows "\<exists>vol' d'. fat_read vol d lba = (True, vol', d') \<and> io_ok vol' d' \<and>
          buffer_lba vol' = lba \<and> buffer vol' = sector_view vol d lba \<and>
          sector_view vol' d' = sector_view vol d \<and> geometry vol' = geometry vol \<and>
          (buffer_dirty vol' \<longrightarrow> buffer_dirty vol \<and> buffer_lba vol = lba)"
proof (cases "buffer_lba vol = lba")
  case True
  with assms show ?thesis by (simp add: fat_read_def sector_view_def)
next
  case False
  from fat_flush_io_ok [OF assms] obtain d1 where
    f: "fat_flush vol d = (True, vol\<lparr>buffer_dirty := False\<rparr>, d1)" and
    ok1: "io_ok (vol\<lparr>buffer_dirty := False\<rparr>) d1" and
    v1: "sector_view (vol\<lparr>buffer_dirty := False\<rparr>) d1 = sector_view vol d"
    by blast
  from ok1 have nf1: "no_faults d1" by (simp add: io_ok_def)
  from disk_read_no_faults [OF nf1, of lba] obtain d2 where
    r: "disk_read d1 lba = (Some (sectors d1 lba), d2)" and nf2: "no_faults d2"
    and s2: "sectors d2 = sectors d1" by blast
  let ?vol' = "vol\<lparr>buffer_dirty := False, buffer := sectors d1 lba, buffer_lba := lba\<rparr>"
  have fr: "fat_read vol d lba = (True, ?vol', d2)"
    using False f r by (simp add: fat_read_def)
  have ok2: "io_ok ?vol' d2"
    using ok1 nf2 s2 by (auto simp: io_ok_def sectors_512_def cache_coherent_def)
  have vw: "sector_view ?vol' d2 = sector_view vol d"
  proof
    fix l
    have "sector_view ?vol' d2 l = sector_view (vol\<lparr>buffer_dirty := False\<rparr>) d1 l"
      using ok1 False s2
      by (auto simp: sector_view_def io_ok_def cache_coherent_def)
    then show "sector_view ?vol' d2 l = sector_view vol d l" by (simp add: v1)
  qed
  have b: "buffer ?vol' = sector_view vol d lba"
    using False v1 [THEN fun_cong, of lba] by (simp add: sector_view_def)
  show ?thesis
    using fr ok2 vw b by (auto simp: geometry_def)
qed

lemma fat_entry_cong:
  "sector_view vol' d' = sector_view vol d \<Longrightarrow> geometry vol' = geometry vol \<Longrightarrow>
   fat_entry vol' d' = fat_entry vol d"
  by (auto simp: fat_entry_def geometry_def fun_eq_iff)

lemma fat_table_get_io_ok:
  assumes "io_ok vol d"
  shows "\<exists>vol' d'. fat_table_get vol d clu = (Some (fat_entry vol d clu), vol', d') \<and>
           io_ok vol' d' \<and> sector_view vol' d' = sector_view vol d \<and>
           geometry vol' = geometry vol"
proof -
  from fat_read_io_ok [OF assms, of "fat_lba vol + clu div 128"]
  obtain vol' d' where r: "fat_read vol d (fat_lba vol + clu div 128) = (True, vol', d')"
    and ok: "io_ok vol' d'" and b: "buffer vol' = sector_view vol d (fat_lba vol + clu div 128)"
    and v: "sector_view vol' d' = sector_view vol d" and g: "geometry vol' = geometry vol"
    by blast
  show ?thesis using r ok b v g
    by (simp add: fat_table_get_def fat_entry_def)
qed

section \<open>Seek\<close>

text \<open>
  The end-of-chain test of the source is the one of the spec.
\<close>

lemma spec_next_cluster_eoc:
  "spec_next_cluster entry = (if is_eoc entry then None else Some (entry AND 0xFFFFFFF))"
proof -
  have "entry AND 0xFFFFFFF \<le> 0xFFFFFFF" by (rule word_and_le1)
  then show ?thesis by (simp add: spec_next_cluster_def is_eoc_def)
qed

text \<open>
  What \<open>fat_file_jump\<close> does on a volume with nonzero sector and cluster size whose
  device calls succeed and whose FAT entries have the reserved top four bits clear. It
  starts at \<open>sect_to_clust (start_sect)\<close> and walks
  \<open>offset / sector_size / cluster_size\<close> entries of the chain. When the chain reaches
  the target, it returns \<open>FSTATUS_OK\<close> with \<open>cluster\<close> the cluster reached,
  \<open>sector = clust_to_sect (cluster) + (offset / sector_size) mod cluster_size\<close>,
  \<open>rw_offset = offset mod sector_size\<close> and \<open>glob_offset = offset\<close>. When it meets an
  end of chain first, it returns at once with the value 0, which is \<open>FSTATUS_OK\<close> too,
  and leaves \<open>sector\<close>, \<open>rw_offset\<close> and \<open>glob_offset\<close> as they were.
\<close>

lemma fat_file_jump_walk_chain:
  assumes "io_ok vol d"
    and "\<forall>c. fat_entry vol d c AND 0xFFFFFFF = fat_entry vol d c"
  shows "\<exists>clu' vol' d'.
           fat_file_jump_walk hops vol d clu =
             ((case spec_chain_walk (fat_entry vol d) hops clu of
                 None \<Rightarrow> Some fstatus_zero | Some c \<Rightarrow> None), clu', vol', d') \<and>
           (\<forall>c. spec_chain_walk (fat_entry vol d) hops clu = Some c \<longrightarrow> clu' = c) \<and>
           io_ok vol' d' \<and> geometry vol' = geometry vol"
  using assms
proof (induction hops arbitrary: vol d clu)
  case 0
  then show ?case by simp
next
  case (Suc hops)
  from fat_table_get_io_ok [OF Suc.prems(1), of clu]
  obtain vol1 d1 where t: "fat_table_get vol d clu = (Some (fat_entry vol d clu), vol1, d1)"
    and ok1: "io_ok vol1 d1" and v1: "sector_view vol1 d1 = sector_view vol d"
    and g1: "geometry vol1 = geometry vol" by blast
  have fe: "fat_entry vol1 d1 = fat_entry vol d"
    by (rule fat_entry_cong [OF v1 g1])
  have m: "fat_entry vol d clu AND 0xFFFFFFF = fat_entry vol d clu"
    using Suc.prems(2) by blast
  show ?case
  proof (cases "is_eoc (fat_entry vol d clu)")
    case True
    with t ok1 g1 show ?thesis by (simp add: spec_next_cluster_eoc)
  next
    case False
    have r: "\<forall>c. fat_entry vol1 d1 c AND 0xFFFFFFF = fat_entry vol1 d1 c"
      using Suc.prems(2) by (simp add: fe)
    from Suc.IH [OF ok1 r, of "fat_entry vol d clu"] False t fe g1 m
    show ?thesis by (simp add: spec_next_cluster_eoc)
  qed
qed

lemma fat_file_jump_follows_chain:
  assumes "io_ok vol d" and "sector_size vol \<noteq> 0" and "cluster_size vol \<noteq> 0"
    and "\<forall>c. fat_entry vol d c AND 0xFFFFFFF = fat_entry vol d c"
  shows "\<exists>status file' vol' d'.
           fat_file_jump file vol d offset = Some (status, file', vol', d') \<and>
           (case spec_seek_cluster vol (fat_entry vol d) (start_sect file) offset of
              None \<Rightarrow>
                status = FSTATUS_OK \<and> sector file' = sector file \<and>
                rw_offset file' = rw_offset file \<and> glob_offset file' = glob_offset file
            | Some clu \<Rightarrow>
                status = FSTATUS_OK \<and> cluster file' = clu \<and>
                sector file' =
                  fat_clust_to_sect vol clu +
                  (offset div ucast (sector_size vol)) mod ucast (cluster_size vol) \<and>
                rw_offset file' = offset mod ucast (sector_size vol) \<and>
                glob_offset file' = offset)"
proof -
  let ?c0 = "(start_sect file - data_lba vol) div ucast (cluster_size vol) + 2"
  let ?hops = "unat (offset div ucast (sector_size vol) div ucast (cluster_size vol))"
  from fat_file_jump_walk_chain [OF assms(1,4), of ?hops ?c0]
  obtain clu' vol' d' where
    w: "fat_file_jump_walk ?hops vol d ?c0 =
          ((case spec_chain_walk (fat_entry vol d) ?hops ?c0 of
              None \<Rightarrow> Some fstatus_zero | Some c \<Rightarrow> None), clu', vol', d')"
    and c: "\<forall>c. spec_chain_walk (fat_entry vol d) ?hops ?c0 = Some c \<longrightarrow> clu' = c"
    and g: "geometry vol' = geometry vol" by blast
  from g have gs: "sector_size vol' = sector_size vol" "cluster_size vol' = cluster_size vol"
    "data_lba vol' = data_lba vol" by (simp_all add: geometry_def)
  show ?thesis
  proof (cases "spec_chain_walk (fat_entry vol d) ?hops ?c0")
    case None
    with w assms(2,3) show ?thesis
      by (simp add: fat_file_jump_def fat_sect_to_clust_def spec_seek_cluster_def Let_def
                    fstatus_zero_def)
  next
    case (Some clu)
    with c have "clu' = clu" by simp
    with Some w assms(2,3) gs show ?thesis
      by (simp add: fat_file_jump_def fat_sect_to_clust_def spec_seek_cluster_def Let_def
                    fat_clust_to_sect_def)
  qed
qed

text \<open>
  Spec scenario 4: in the chain 2, 5, 9 with 4096-byte clusters, \<open>seek (6000)\<close> reaches
  cluster 5.
\<close>

lemma fat_file_jump_scenario_4:
  "map_option (\<lambda>(status, file', vol', d'). (status, file'))
     (fat_file_jump file_chain vol_C disk_chain 6000) =
   Some (FSTATUS_OK, file_chain\<lparr>cluster := 5, sector := 4155, rw_offset := 368,
                                glob_offset := 6000\<rparr>)"
  by code_simp

text \<open>
  The walk takes the whole 32-bit entry as the next cluster, where the spec takes its
  low 28 bits: with the entry \<open>0x10000005\<close> for cluster 2, \<open>seek (4096)\<close> leaves
  \<open>cluster = 0x10000005\<close>, not 5.
\<close>

lemma fat_file_jump_reserved_bits:
  "spec_seek_cluster vol_C (fat_entry vol_C disk_chain_reserved) (start_sect file_chain) 4096 =
     Some 5 \<and>
   map_option (\<lambda>(status, file', vol', d'). (status, cluster file'))
     (fat_file_jump file_chain vol_C disk_chain_reserved 4096) = Some (FSTATUS_OK, 0x10000005)"
  by code_simp


section \<open>Free-cluster allocation\<close>

lemma length_fat_store32: "length (fat_store32 b off x) = length b"
  by (simp add: fat_store32_def)

lemma fat_load32_store32_same:
  "off + 3 < length b \<Longrightarrow> fat_load32 (fat_store32 b off x) off = x"
  unfolding fat_load32_def fat_store32_def
  apply simp
  apply (rule bit_word_eqI)
  subgoal for n
    by (cases "n < 8"; cases "n < 16"; cases "n < 24"; simp add: bit_simps not_less; arith)
  done

lemma fat_load32_store32_other:
  "off' + 4 \<le> off \<or> off + 4 \<le> off' \<Longrightarrow>
   fat_load32 (fat_store32 b off x) off' = fat_load32 b off'"
  unfolding fat_load32_def fat_store32_def by auto

lemma scan_next_eq:
  assumes "sector_size vol = 512" and "c < c'"
  shows "scan_next vol (fat_lba vol + c div 128) ((c mod 128) * 4) =
           (fat_lba vol + (c + 1) div 128, ((c + 1) mod 128) * 4)"
  using scan_pos_step [OF assms(2), of "fat_lba vol"] assms(1)
  by (simp add: scan_next_def)

lemma scan_guard: "\<not> 512 < unat (((c :: u32) mod 128) * 4) + 4"
  by (simp add: unat_fat_off)

lemma fat_entry_buffer:
  "buffer vol1 = sector_view vol d (fat_lba vol + c div 128) \<Longrightarrow>
   fat_load32 (buffer vol1) (unat ((c mod 128) * 4)) = fat_entry vol d c"
  by (simp add: fat_entry_def unat_fat_off unat_mod128)

lemma io_ok_store:
  assumes "io_ok vol d" and "length b = 512"
  shows "io_ok (vol\<lparr>buffer := b, buffer_dirty := True\<rparr>) d"
    and "sector_view (vol\<lparr>buffer := b, buffer_dirty := True\<rparr>) d =
           (sector_view vol d)(buffer_lba vol := b)"
    and "geometry (vol\<lparr>buffer := b, buffer_dirty := True\<rparr>) = geometry vol"
  using assms
  by (auto simp: io_ok_def cache_coherent_def sector_view_def geometry_def fun_eq_iff)

lemma fat_entry_store:
  assumes "fat_lba vol' = fat_lba vol"
    and "sector_view vol' d' =
           (sector_view vol d)(fat_lba vol + c1 div 128 :=
              fat_store32 (sector_view vol d (fat_lba vol + c1 div 128)) (unat ((c1 mod 128) * 4)) v)"
    and "length (sector_view vol d (fat_lba vol + c1 div 128)) = 512"
  shows "fat_entry vol' d' x = (if x = c1 then v else fat_entry vol d x)"
proof (cases "x = c1")
  case True
  have "unat c1 mod 128 * 4 + 3 < 512" by arith
  then show ?thesis using True assms
    by (simp add: fat_entry_def unat_fat_off unat_mod128 fat_load32_store32_same)
next
  case False
  show ?thesis
  proof (cases "x div 128 = c1 div 128")
    case True
    from same_sector_offsets [OF False True]
    have "unat (x mod 128) * 4 + 4 \<le> unat (c1 mod 128) * 4 \<or>
          unat (c1 mod 128) * 4 + 4 \<le> unat (x mod 128) * 4" by blast
    then show ?thesis using False True assms
      by (simp add: fat_entry_def unat_fat_off unat_mod128 fat_load32_store32_other)
  next
    case ne: False
    with False assms show ?thesis by (simp add: fat_entry_def)
  qed
qed

lemma scan_to_second:
  assumes "io_ok vol d" and "sector_size vol = 512" and "c \<le> c2"
    and "\<forall>x. c \<le> x \<and> x < c2 \<longrightarrow> fat_entry vol d x AND 0x7F \<noteq> 0"
    and "fat_entry vol d c2 AND 0x7F = 0"
    and "unat c2 - unat c = n"
  shows "\<exists>vol' d'.
           fat_get_cluster_scan vol d (fat_lba vol + c div 128) ((c mod 128) * 4) True clu =
             Some (True, fat_lba vol + c2 div 128, (c2 mod 128) * 4, clu, vol', d') \<and>
           io_ok vol' d' \<and> sector_view vol' d' = sector_view vol d \<and>
           geometry vol' = geometry vol"
  using assms
proof (induction n arbitrary: c vol d)
  case 0
  then have "unat c = unat c2" by (simp add: word_le_nat_alt)
  then have cc: "c = c2" by (simp add: word_unat_eq_iff)
  from fat_read_io_ok [OF "0.prems"(1), of "fat_lba vol + c div 128"]
  obtain vol1 d1 where r: "fat_read vol d (fat_lba vol + c div 128) = (True, vol1, d1)"
    and ok1: "io_ok vol1 d1"
    and b1: "buffer vol1 = sector_view vol d (fat_lba vol + c div 128)"
    and v1: "sector_view vol1 d1 = sector_view vol d"
    and g1: "geometry vol1 = geometry vol" by blast
  have e: "fat_load32 (buffer vol1) (unat ((c mod 128) * 4)) = fat_entry vol d c"
    by (rule fat_entry_buffer [OF b1])
  show ?case
    using r ok1 v1 g1 e "0.prems"(5) cc scan_guard [of c]
    by (subst fat_get_cluster_scan.simps) simp
next
  case (Suc n)
  then have lt: "c < c2" by (simp add: word_less_nat_alt)
  from fat_read_io_ok [OF Suc.prems(1), of "fat_lba vol + c div 128"]
  obtain vol1 d1 where r: "fat_read vol d (fat_lba vol + c div 128) = (True, vol1, d1)"
    and ok1: "io_ok vol1 d1"
    and b1: "buffer vol1 = sector_view vol d (fat_lba vol + c div 128)"
    and v1: "sector_view vol1 d1 = sector_view vol d"
    and g1: "geometry vol1 = geometry vol" by blast
  have e: "fat_load32 (buffer vol1) (unat ((c mod 128) * 4)) = fat_entry vol d c"
    by (rule fat_entry_buffer [OF b1])
  from Suc.prems(4) lt have nonfree: "fat_entry vol d c AND 0x7F \<noteq> 0" by simp
  from g1 Suc.prems(2) have ss1: "sector_size vol1 = 512" and fl1: "fat_lba vol1 = fat_lba vol"
    by (simp_all add: geometry_def)
  have fe1: "fat_entry vol1 d1 = fat_entry vol d" by (rule fat_entry_cong [OF v1 g1])
  have s1: "unat (c + 1) = unat c + 1" by (rule unat_suc_word [OF lt])
  have le1: "c + 1 \<le> c2" using lt s1 by (simp add: word_le_nat_alt word_less_nat_alt)
  have rest: "\<forall>x. c + 1 \<le> x \<and> x < c2 \<longrightarrow> fat_entry vol1 d1 x AND 0x7F \<noteq> 0"
    using Suc.prems(4) s1 by (auto simp: fe1 word_le_nat_alt)
  have n1: "unat c2 - unat (c + 1) = n" using Suc.prems(6) s1 by simp
  from Suc.IH [OF ok1 ss1 le1 rest _ n1] Suc.prems(5) fe1
  obtain vol' d' where
    rec: "fat_get_cluster_scan vol1 d1 (fat_lba vol1 + (c + 1) div 128) (((c + 1) mod 128) * 4)
            True clu =
          Some (True, fat_lba vol1 + c2 div 128, (c2 mod 128) * 4, clu, vol', d')"
    and ok': "io_ok vol' d'" and v': "sector_view vol' d' = sector_view vol1 d1"
    and g': "geometry vol' = geometry vol1" by auto
  have nx: "scan_next vol1 (fat_lba vol + c div 128) ((c mod 128) * 4) =
              (fat_lba vol1 + (c + 1) div 128, ((c + 1) mod 128) * 4)"
    using scan_next_eq [OF ss1 lt] fl1 by simp
  have "fat_get_cluster_scan vol d (fat_lba vol + c div 128) ((c mod 128) * 4) True clu =
        Some (True, fat_lba vol + c2 div 128, (c2 mod 128) * 4, clu, vol', d')"
    using r e nonfree scan_guard [of c] nx rec fl1
    by (subst fat_get_cluster_scan.simps) simp
  with ok' v' g' v1 g1 show ?case by simp
qed

lemma scan_match_first:
  assumes "io_ok vol d" and "sector_size vol = 512" and "c1 < c2"
    and "\<forall>x. c1 < x \<and> x < c2 \<longrightarrow> fat_entry vol d x AND 0x7F \<noteq> 0"
    and "fat_entry vol d c1 AND 0x7F = 0"
    and "fat_entry vol d c2 AND 0x7F = 0"
  shows "\<exists>vol' d'.
           fat_get_cluster_scan vol d (fat_lba vol + c1 div 128) ((c1 mod 128) * 4) False None =
             Some (True, fat_lba vol + c2 div 128, (c2 mod 128) * 4, Some c1, vol', d') \<and>
           io_ok vol' d' \<and> geometry vol' = geometry vol \<and>
           sector_view vol' d' =
             (sector_view vol d)(fat_lba vol + c1 div 128 :=
                fat_store32 (sector_view vol d (fat_lba vol + c1 div 128))
                  (unat ((c1 mod 128) * 4)) 0xFFFFFFF)"
proof -
  let ?sec = "fat_lba vol + c1 div 128"
  let ?off = "unat ((c1 mod 128) * 4)"
  from fat_read_io_ok [OF assms(1), of ?sec]
  obtain vol1 d1 where r: "fat_read vol d ?sec = (True, vol1, d1)"
    and ok1: "io_ok vol1 d1" and l1: "buffer_lba vol1 = ?sec"
    and b1: "buffer vol1 = sector_view vol d ?sec"
    and v1: "sector_view vol1 d1 = sector_view vol d"
    and g1: "geometry vol1 = geometry vol" by blast
  have e: "fat_load32 (buffer vol1) ?off = fat_entry vol d c1"
    by (rule fat_entry_buffer [OF b1])
  from g1 assms(2) have ss1: "sector_size vol1 = 512" and fl1: "fat_lba vol1 = fat_lba vol"
    by (simp_all add: geometry_def)
  let ?b2 = "fat_store32 (buffer vol1) ?off 0xFFFFFFF"
  let ?vol2 = "vol1\<lparr>buffer := ?b2, buffer_dirty := True\<rparr>"
  from ok1 have len1: "length (buffer vol1) = 512"
    by (simp add: io_ok_def cache_coherent_def)
  then have len2: "length ?b2 = 512" by (simp add: length_fat_store32)
  note st = io_ok_store [OF ok1 len2]
  have ok2: "io_ok ?vol2 d1" by (rule st(1))
  have v2: "sector_view ?vol2 d1 = (sector_view vol d)(?sec := ?b2)"
    using st(2) v1 l1 by simp
  have g2: "geometry ?vol2 = geometry vol" using st(3) g1 by simp
  have ss2: "sector_size ?vol2 = 512" using ss1 by simp
  have fl2: "fat_lba ?vol2 = fat_lba vol" using fl1 by simp
  have fe2: "fat_entry ?vol2 d1 x = (if x = c1 then 0xFFFFFFF else fat_entry vol d x)" for x
    by (rule fat_entry_store [OF fl2]) (use v2 b1 len1 in simp_all)
  have s1: "unat (c1 + 1) = unat c1 + 1" by (rule unat_suc_word [OF assms(3)])
  have le1: "c1 + 1 \<le> c2" using assms(3) s1 by (simp add: word_le_nat_alt word_less_nat_alt)
  have ne2: "c2 \<noteq> c1" using assms(3) by auto
  have rest: "\<forall>x. c1 + 1 \<le> x \<and> x < c2 \<longrightarrow> fat_entry ?vol2 d1 x AND 0x7F \<noteq> 0"
    using assms(4) s1 by (auto simp: fe2 word_le_nat_alt word_less_nat_alt)
  have free2: "fat_entry ?vol2 d1 c2 AND 0x7F = 0" using assms(6) ne2 by (simp add: fe2)
  from scan_to_second [OF ok2 ss2 le1 rest free2 refl, of "Some c1"]
  obtain vol' d' where
    rec: "fat_get_cluster_scan ?vol2 d1 (fat_lba ?vol2 + (c1 + 1) div 128)
            (((c1 + 1) mod 128) * 4) True (Some c1) =
          Some (True, fat_lba ?vol2 + c2 div 128, (c2 mod 128) * 4, Some c1, vol', d')"
    and ok': "io_ok vol' d'" and v': "sector_view vol' d' = sector_view ?vol2 d1"
    and g': "geometry vol' = geometry ?vol2" by blast
  have nx: "scan_next vol1 ?sec ((c1 mod 128) * 4) =
              (fat_lba vol + (c1 + 1) div 128, ((c1 + 1) mod 128) * 4)"
    using scan_next_eq [OF ss1 assms(3)] fl1 by simp
  have cl: "128 * (?sec - fat_lba vol1) + ((c1 mod 128) * 4) div 4 = c1"
    unfolding fl1 by (rule pos_cluster)
  have "fat_get_cluster_scan vol d ?sec ((c1 mod 128) * 4) False None =
        Some (True, fat_lba vol + c2 div 128, (c2 mod 128) * 4, Some c1, vol', d')"
    using r e assms(5) scan_guard [of c1] nx rec fl1 cl
    by (subst fat_get_cluster_scan.simps) simp
  with ok' v' g' v2 g2 b1 show ?thesis by simp
qed

lemma scan_to_first:
  assumes "io_ok vol d" and "sector_size vol = 512" and "c \<le> c1" and "c1 < c2"
    and "\<forall>x. c \<le> x \<and> x < c2 \<and> x \<noteq> c1 \<longrightarrow> fat_entry vol d x AND 0x7F \<noteq> 0"
    and "fat_entry vol d c1 AND 0x7F = 0"
    and "fat_entry vol d c2 AND 0x7F = 0"
    and "unat c1 - unat c = n"
  shows "\<exists>vol' d'.
           fat_get_cluster_scan vol d (fat_lba vol + c div 128) ((c mod 128) * 4) False None =
             Some (True, fat_lba vol + c2 div 128, (c2 mod 128) * 4, Some c1, vol', d') \<and>
           io_ok vol' d' \<and> geometry vol' = geometry vol \<and>
           sector_view vol' d' =
             (sector_view vol d)(fat_lba vol + c1 div 128 :=
                fat_store32 (sector_view vol d (fat_lba vol + c1 div 128))
                  (unat ((c1 mod 128) * 4)) 0xFFFFFFF)"
  using assms
proof (induction n arbitrary: c vol d)
  case 0
  then have "unat c = unat c1" by (simp add: word_le_nat_alt)
  then have cc: "c = c1" by (simp add: word_unat_eq_iff)
  have between: "\<forall>x. c1 < x \<and> x < c2 \<longrightarrow> fat_entry vol d x AND 0x7F \<noteq> 0"
  proof (intro allI impI)
    fix x assume x: "c1 < x \<and> x < c2"
    then have "c \<le> x \<and> x < c2 \<and> x \<noteq> c1" using cc by auto
    with "0.prems"(5) show "fat_entry vol d x AND 0x7F \<noteq> 0" by blast
  qed
  show ?case
    unfolding cc by (rule scan_match_first [OF "0.prems"(1,2,4) between "0.prems"(6,7)])
next
  case (Suc n)
  then have lt: "c < c1" by (simp add: word_less_nat_alt)
  then have lt2: "c < c2" using Suc.prems(4) by simp
  from fat_read_io_ok [OF Suc.prems(1), of "fat_lba vol + c div 128"]
  obtain vol1 d1 where r: "fat_read vol d (fat_lba vol + c div 128) = (True, vol1, d1)"
    and ok1: "io_ok vol1 d1"
    and b1: "buffer vol1 = sector_view vol d (fat_lba vol + c div 128)"
    and v1: "sector_view vol1 d1 = sector_view vol d"
    and g1: "geometry vol1 = geometry vol" by blast
  have e: "fat_load32 (buffer vol1) (unat ((c mod 128) * 4)) = fat_entry vol d c"
    by (rule fat_entry_buffer [OF b1])
  from Suc.prems(5) lt lt2 have nonfree: "fat_entry vol d c AND 0x7F \<noteq> 0" by auto
  from g1 Suc.prems(2) have ss1: "sector_size vol1 = 512" and fl1: "fat_lba vol1 = fat_lba vol"
    by (simp_all add: geometry_def)
  have fe1: "fat_entry vol1 d1 = fat_entry vol d" by (rule fat_entry_cong [OF v1 g1])
  have s1: "unat (c + 1) = unat c + 1" by (rule unat_suc_word [OF lt])
  have le1: "c + 1 \<le> c1" using lt s1 by (simp add: word_le_nat_alt word_less_nat_alt)
  have rest: "\<forall>x. c + 1 \<le> x \<and> x < c2 \<and> x \<noteq> c1 \<longrightarrow> fat_entry vol1 d1 x AND 0x7F \<noteq> 0"
    using Suc.prems(5) s1 by (auto simp: fe1 word_le_nat_alt)
  have n1: "unat c1 - unat (c + 1) = n" using Suc.prems(8) s1 by simp
  have f1: "fat_entry vol1 d1 c1 AND 0x7F = 0" and f2: "fat_entry vol1 d1 c2 AND 0x7F = 0"
    using Suc.prems(6,7) by (simp_all add: fe1)
  from Suc.IH [OF ok1 ss1 le1 Suc.prems(4) rest f1 f2 n1]
  obtain vol' d' where
    rec: "fat_get_cluster_scan vol1 d1 (fat_lba vol1 + (c + 1) div 128) (((c + 1) mod 128) * 4)
            False None =
          Some (True, fat_lba vol1 + c2 div 128, (c2 mod 128) * 4, Some c1, vol', d')"
    and ok': "io_ok vol' d'" and g': "geometry vol' = geometry vol1"
    and v': "sector_view vol' d' =
             (sector_view vol1 d1)(fat_lba vol1 + c1 div 128 :=
                fat_store32 (sector_view vol1 d1 (fat_lba vol1 + c1 div 128))
                  (unat ((c1 mod 128) * 4)) 0xFFFFFFF)" by blast
  have nx: "scan_next vol1 (fat_lba vol + c div 128) ((c mod 128) * 4) =
              (fat_lba vol1 + (c + 1) div 128, ((c + 1) mod 128) * 4)"
    using scan_next_eq [OF ss1 lt] fl1 by simp
  have res: "fat_get_cluster_scan vol d (fat_lba vol + c div 128) ((c mod 128) * 4) False None =
        Some (True, fat_lba vol + c2 div 128, (c2 mod 128) * 4, Some c1, vol', d')"
    using r e nonfree scan_guard [of c] nx rec fl1
    by (subst fat_get_cluster_scan.simps) simp
  have g'': "geometry vol' = geometry vol" using g' g1 by simp
  have v'': "sector_view vol' d' =
             (sector_view vol d)(fat_lba vol + c1 div 128 :=
                fat_store32 (sector_view vol d (fat_lba vol + c1 div 128))
                  (unat ((c1 mod 128) * 4)) 0xFFFFFFF)"
    unfolding v' v1 fl1 ..
  from res ok' g'' v'' show ?case by blast
qed

lemma fat_get_cluster_allocates:
  assumes ok: "io_ok vol d" and ss: "sector_size vol = 512"
    and nf: "fat_load32 (sector_view vol d (info_lba vol)) INFO_CLUST_NEXT_FREE = next_free"
    and fc: "fat_load32 (sector_view vol d (info_lba vol)) INFO_CLUST_CNT = free_count"
    and le: "next_free \<le> c1" and lt: "c1 < c2"
    and others: "\<forall>x. next_free \<le> x \<and> x < c2 \<and> x \<noteq> c1 \<longrightarrow> fat_entry vol d x AND 0x7F \<noteq> 0"
    and free1: "fat_entry vol d c1 AND 0x7F = 0"
    and free2: "fat_entry vol d c2 AND 0x7F = 0"
    and sep: "info_lba vol \<noteq> fat_lba vol + c1 div 128"
  shows "\<exists>vol' d'.
           fat_get_cluster vol d = Some (None, Some c1, vol', d') \<and>
           \<not> buffer_dirty vol' \<and>
           fat_load32 (sectors d' (fat_lba vol + c1 div 128)) (unat (c1 mod 128) * 4) = 0xFFFFFFF \<and>
           fat_load32 (sectors d' (info_lba vol)) INFO_CLUST_NEXT_FREE = c2 \<and>
           fat_load32 (sectors d' (info_lba vol)) INFO_CLUST_CNT = free_count - 1"
proof -
  let ?fsec = "fat_lba vol + c1 div 128"
  from fat_read_io_ok [OF ok, of "info_lba vol"]
  obtain vol1 d1 where r1: "fat_read vol d (info_lba vol) = (True, vol1, d1)"
    and ok1: "io_ok vol1 d1" and b1: "buffer vol1 = sector_view vol d (info_lba vol)"
    and v1: "sector_view vol1 d1 = sector_view vol d"
    and g1: "geometry vol1 = geometry vol" by blast
  from g1 ss have ss1: "sector_size vol1 = 512" and fl1: "fat_lba vol1 = fat_lba vol"
    and il1: "info_lba vol1 = info_lba vol" by (simp_all add: geometry_def)
  have fe1: "fat_entry vol1 d1 = fat_entry vol d" by (rule fat_entry_cong [OF v1 g1])
  from scan_to_first [OF ok1 ss1 le lt _ _ _ refl] others free1 free2
  obtain vol2 d2 where
    sc: "fat_get_cluster_scan vol1 d1 (fat_lba vol1 + next_free div 128)
           ((next_free mod 128) * 4) False None =
         Some (True, fat_lba vol1 + c2 div 128, (c2 mod 128) * 4, Some c1, vol2, d2)"
    and ok2: "io_ok vol2 d2" and g2: "geometry vol2 = geometry vol1"
    and v2: "sector_view vol2 d2 =
             (sector_view vol1 d1)(fat_lba vol1 + c1 div 128 :=
                fat_store32 (sector_view vol1 d1 (fat_lba vol1 + c1 div 128))
                  (unat ((c1 mod 128) * 4)) 0xFFFFFFF)"
    unfolding fe1 by blast
  from g2 fl1 il1 have fl2: "fat_lba vol2 = fat_lba vol" and il2: "info_lba vol2 = info_lba vol"
    by (simp_all add: geometry_def)
  from fat_read_io_ok [OF ok2, of "info_lba vol"]
  obtain vol3 d3 where r3: "fat_read vol2 d2 (info_lba vol) = (True, vol3, d3)"
    and ok3: "io_ok vol3 d3" and l3: "buffer_lba vol3 = info_lba vol"
    and b3: "buffer vol3 = sector_view vol2 d2 (info_lba vol)"
    and v3: "sector_view vol3 d3 = sector_view vol2 d2"
    and g3: "geometry vol3 = geometry vol2" by blast
  from g3 fl2 have fl3: "fat_lba vol3 = fat_lba vol" by (simp add: geometry_def)
  have b3': "buffer vol3 = sector_view vol d (info_lba vol)"
    using b3 v2 v1 sep fl1 by simp
  from ok3 have len3: "length (buffer vol3) = 512" by (simp add: io_ok_def cache_coherent_def)
  let ?nb = "fat_store32 (fat_store32 (buffer vol3) INFO_CLUST_NEXT_FREE c2)
               INFO_CLUST_CNT (free_count - 1)"
  let ?vol4 = "vol3\<lparr>buffer := ?nb, buffer_dirty := True\<rparr>"
  have lenb: "length ?nb = 512" using len3 by (simp add: length_fat_store32)
  note st = io_ok_store [OF ok3 lenb]
  from fat_flush_io_ok [OF st(1)]
  obtain d5 where fl: "fat_flush ?vol4 d3 = (True, ?vol4\<lparr>buffer_dirty := False\<rparr>, d5)"
    and s5: "sectors d5 (buffer_lba ?vol4) = buffer ?vol4"
    and o5: "\<forall>lba. lba \<noteq> buffer_lba ?vol4 \<longrightarrow> sectors d5 lba = sectors d3 lba" by blast
  have info5: "sectors d5 (info_lba vol) = ?nb" using s5 l3 by simp
  have "sectors d5 ?fsec = sectors d3 ?fsec" using o5 l3 sep by simp
  also have "\<dots> = sector_view vol3 d3 ?fsec" using l3 sep by (simp add: sector_view_def)
  also have "\<dots> = fat_store32 (sector_view vol d ?fsec) (unat ((c1 mod 128) * 4)) 0xFFFFFFF"
    using v3 v2 v1 fl1 by simp
  finally have fat5: "sectors d5 ?fsec =
      fat_store32 (sector_view vol d ?fsec) (unat ((c1 mod 128) * 4)) 0xFFFFFFF" .
  have lenf: "length (sector_view vol d ?fsec) = 512"
    using ok by (auto simp: sector_view_def io_ok_def cache_coherent_def sectors_512_def)
  have e1: "fat_load32 (sectors d5 ?fsec) (unat (c1 mod 128) * 4) = 0xFFFFFFF"
    unfolding fat5 using lenf fat_load32_store32_same [of "unat ((c1 mod 128) * 4)"]
    by (simp add: unat_fat_off unat_mod128)
  have e2: "fat_load32 (sectors d5 (info_lba vol)) INFO_CLUST_NEXT_FREE = c2"
    unfolding info5 using len3
    by (simp add: INFO_CLUST_NEXT_FREE_def INFO_CLUST_CNT_def fat_load32_store32_other
                  fat_load32_store32_same length_fat_store32)
  have e3: "fat_load32 (sectors d5 (info_lba vol)) INFO_CLUST_CNT = free_count - 1"
    unfolding info5 using len3
    by (simp add: INFO_CLUST_NEXT_FREE_def INFO_CLUST_CNT_def fat_load32_store32_same
                  length_fat_store32)
  have cl: "128 * (fat_lba vol1 + c2 div 128 - fat_lba vol3) + ((c2 mod 128) * 4) div 4 = c2"
    unfolding fl1 fl3 by (rule pos_cluster)
  have "fat_get_cluster vol d = Some (None, Some c1, ?vol4\<lparr>buffer_dirty := False\<rparr>, d5)"
    using r1 b1 nf fc sc r3 il2 fl cl b3'
    by (simp add: fat_get_cluster_def Let_def)
  with e1 e2 e3 show ?thesis by simp
qed

lemma fat_sector_10_17_entry:
  assumes "n < 128"
  shows "fat_load32 fat_sector_10_17 (n * 4) = (if n = 10 \<or> n = 17 then 0 else 0xFFFFFFFF)"
proof -
  have d: "(n * 4 + k) div 4 = n" if "k < 4" for k using that by simp
  have b: "fat_sector_10_17 ! (n * 4 + k) = (if n = 10 \<or> n = 17 then 0 else 0xFF)"
    if "k < 4" for k
    using that assms d [OF that] by (simp add: fat_sector_10_17_def)
  from b [of 0] b [of 1] b [of 2] b [of 3] show ?thesis
    by (simp add: fat_load32_def)
qed

lemma disk_alloc_io_ok: "io_ok vol_C disk_alloc"
  by (simp add: io_ok_def no_faults_def sectors_512_def cache_coherent_def vol_C_def
                disk_alloc_def fat_sector_10_17_def info_sector_10_50_def)

lemma disk_alloc_fat_entry:
  assumes "x < 128"
  shows "fat_entry vol_C disk_alloc x = (if x = 10 \<or> x = 17 then 0 else 0xFFFFFFFF)"
proof -
  from assms have n: "unat x < 128" by (simp add: word_less_nat_alt)
  then have "unat x div 128 = 0" and "unat x mod 128 = unat x" by simp_all
  then have dv: "x div 128 = 0" and md: "unat (x mod 128) = unat x"
    by (simp_all add: word_unat_eq_iff unat_div128 unat_mod128)
  have "unat x = 10 \<longleftrightarrow> x = 10" "unat x = 17 \<longleftrightarrow> x = 17"
    by (simp_all add: word_unat_eq_iff)
  with fat_sector_10_17_entry [OF n] show ?thesis
    by (simp add: fat_entry_def sector_view_def dv md vol_C_def disk_alloc_def)
qed

lemma disk_alloc_fsinfo:
  "fat_load32 (sector_view vol_C disk_alloc (info_lba vol_C)) INFO_CLUST_NEXT_FREE = 10"
  "fat_load32 (sector_view vol_C disk_alloc (info_lba vol_C)) INFO_CLUST_CNT = 50"
  by (simp_all add: sector_view_def vol_C_def disk_alloc_def info_sector_10_50_def
                    fat_load32_def INFO_CLUST_NEXT_FREE_def INFO_CLUST_CNT_def)

lemma disk_alloc_others:
  "\<forall>x. (10 :: u32) \<le> x \<and> x < 17 \<and> x \<noteq> 10 \<longrightarrow> fat_entry vol_C disk_alloc x AND 0x7F \<noteq> 0"
proof (intro allI impI)
  fix x :: u32
  assume a: "10 \<le> x \<and> x < 17 \<and> x \<noteq> 10"
  then have "x < 128" by (simp add: word_less_nat_alt)
  moreover from a have "x \<noteq> 17" by auto
  ultimately show "fat_entry vol_C disk_alloc x AND 0x7F \<noteq> 0"
    using a by (simp add: disk_alloc_fat_entry)
qed

lemma disk_alloc_result:
  "\<exists>vol' d'. fat_get_cluster vol_C disk_alloc = Some (None, Some 10, vol', d') \<and>
     \<not> buffer_dirty vol' \<and>
     fat_load32 (sectors d' 2080) 40 = 0xFFFFFFF \<and>
     fat_load32 (sectors d' 2049) INFO_CLUST_NEXT_FREE = 17 \<and>
     fat_load32 (sectors d' 2049) INFO_CLUST_CNT = 49"
proof -
  have ss: "sector_size vol_C = 512" by (simp add: vol_C_def)
  have f1: "fat_entry vol_C disk_alloc 10 AND 0x7F = 0"
    and f2: "fat_entry vol_C disk_alloc 17 AND 0x7F = 0"
    by (simp_all add: disk_alloc_fat_entry)
  have sep: "info_lba vol_C \<noteq> fat_lba vol_C + 10 div 128" by (simp add: vol_C_def)
  from fat_get_cluster_allocates [OF disk_alloc_io_ok ss disk_alloc_fsinfo _ _
         disk_alloc_others f1 f2 sep]
  show ?thesis by (simp add: vol_C_def)
qed

text \<open>
  C3: on a volume with 512-byte sectors whose device calls succeed, let the FSInfo
  sector hold \<open>next_free\<close> and \<open>free_count\<close>, and let \<open>c1 < c2\<close> be the first two
  clusters at or after \<open>next_free\<close> whose FAT entries have the low 7 bits zero (the
  FSInfo sector not being the FAT sector of \<open>c1\<close>). Then \<open>fat_get_cluster\<close> stores
  \<open>c1\<close> through its out-parameter, and when it is done the device holds
  \<open>0x0FFFFFFF\<close> in the FAT entry of \<open>c1\<close>, \<open>next_free = c2\<close> and
  \<open>free_count - 1\<close> in the FSInfo sector, and the buffer is clean.
\<close>

theorem fat_get_cluster_first_free:
  assumes "io_ok vol d" and "sector_size vol = 512"
    and "fat_load32 (sector_view vol d (info_lba vol)) INFO_CLUST_NEXT_FREE = next_free"
    and "fat_load32 (sector_view vol d (info_lba vol)) INFO_CLUST_CNT = free_count"
    and "next_free \<le> c1" and "c1 < c2"
    and "\<forall>x. next_free \<le> x \<and> x < c2 \<and> x \<noteq> c1 \<longrightarrow> fat_entry vol d x AND 0x7F \<noteq> 0"
    and "fat_entry vol d c1 AND 0x7F = 0"
    and "fat_entry vol d c2 AND 0x7F = 0"
    and "info_lba vol \<noteq> fat_lba vol + c1 div 128"
  shows "\<exists>ret vol' d'.
           fat_get_cluster vol d = Some (ret, Some c1, vol', d') \<and>
           \<not> buffer_dirty vol' \<and>
           fat_load32 (sectors d' (fat_lba vol + c1 div 128)) (unat (c1 mod 128) * 4) = 0xFFFFFFF \<and>
           fat_load32 (sectors d' (info_lba vol)) INFO_CLUST_NEXT_FREE = c2 \<and>
           fat_load32 (sectors d' (info_lba vol)) INFO_CLUST_CNT = free_count - 1"
  using fat_get_cluster_allocates [OF assms] by blast

theorem fat_get_cluster_first_free_witness:
  "\<exists>ret vol' d'.
     fat_get_cluster vol_C disk_alloc = Some (ret, Some 10, vol', d') \<and>
     \<not> buffer_dirty vol' \<and>
     fat_load32 (sectors d' 2080) 40 = 0xFFFFFFF \<and>
     fat_load32 (sectors d' 2049) INFO_CLUST_NEXT_FREE = 17 \<and>
     fat_load32 (sectors d' 2049) INFO_CLUST_CNT = 49"
proof -
  have ss: "sector_size vol_C = 512" by (simp add: vol_C_def)
  have f1: "fat_entry vol_C disk_alloc 10 AND 0x7F = 0"
    and f2: "fat_entry vol_C disk_alloc 17 AND 0x7F = 0"
    by (simp_all add: disk_alloc_fat_entry)
  have sep: "info_lba vol_C \<noteq> fat_lba vol_C + 10 div 128" by (simp add: vol_C_def)
  from fat_get_cluster_first_free [OF disk_alloc_io_ok ss disk_alloc_fsinfo _ _
         disk_alloc_others f1 f2 sep]
  show ?thesis by (simp add: vol_C_def)
qed

section \<open>The result of fat\_get\_cluster\<close>

text \<open>
  Whatever the volume and the device, \<open>fat_get_cluster\<close> never returns 1: it returns 0
  after a failed read, and otherwise leaves through the closing brace with no value.
\<close>

lemma fat_get_cluster_never_returns_1:
  "fat_get_cluster vol d = Some (ret, clu, vol', d') \<Longrightarrow> ret \<noteq> Some True"
  by (auto simp: fat_get_cluster_def Let_def split: prod.splits option.splits if_splits bool.splits)

lemma disk_alloc_last_write_fails:
  "map_option (\<lambda>(ret, clu, vol', d'). (ret, fat_load32 (sectors d' 2049) INFO_CLUST_NEXT_FREE))
     (fat_get_cluster vol_C (disk_alloc\<lparr>faults := [False, False, False, False, True]\<rparr>)) =
   Some (None, 10)"
  by code_simp

text \<open>
  C9 at the volume of spec scenario 6. When every read and write succeeds,
  \<open>fat_get_cluster\<close> returns no value (not 1). When the five device calls it makes
  succeed up to the last one, the write of the FSInfo sector, it returns no value either
  (not 0), and the device still holds \<open>next_free = 10\<close>.
\<close>

theorem fat_get_cluster_no_return_value:
  "map_option fst (fat_get_cluster vol_C disk_alloc) = Some None \<and>
   map_option (\<lambda>(ret, clu, vol', d'). (ret, fat_load32 (sectors d' 2049) INFO_CLUST_NEXT_FREE))
     (fat_get_cluster vol_C (disk_alloc\<lparr>faults := [False, False, False, False, True]\<rparr>)) =
   Some (None, 10)"
proof -
  from disk_alloc_result obtain vol' d' where
    "fat_get_cluster vol_C disk_alloc = Some (None, Some 10, vol', d')" by blast
  then have "map_option fst (fat_get_cluster vol_C disk_alloc) = Some None" by simp
  with disk_alloc_last_write_fails show ?thesis by simp
qed

section \<open>Read at the end of a file\<close>

text \<open>
  Before the end of the file the read is as C2 states it: on a volume with 512-byte
  sectors whose device calls succeed, for a cursor with \<open>glob_offset < size\<close> (and
  \<open>rw_offset\<close> at most one sector), \<open>fat_file_read\<close> returns \<open>FSTATUS_OK\<close>, delivers
  \<open>min count (size - glob_offset)\<close> bytes, reports that count and leaves
  \<open>glob_offset \<le> size\<close>.
\<close>

lemma fat_file_addr_resolve_io_ok:
  assumes "io_ok vol d"
  shows "\<exists>ok file' vol' d'.
           fat_file_addr_resolve file vol d = (ok, file', vol', d') \<and> io_ok vol' d' \<and>
           geometry vol' = geometry vol \<and> glob_offset file' = glob_offset file \<and>
           rw_offset file' =
             (if ucast (sector_size vol) \<le> rw_offset file
              then rw_offset file - ucast (sector_size vol) else rw_offset file)"
proof (cases "ucast (sector_size vol) \<le> rw_offset file")
  case False
  with assms show ?thesis by (auto simp: fat_file_addr_resolve_def)
next
  case True
  let ?file1 = "file\<lparr>rw_offset := rw_offset file - ucast (sector_size vol),
                        sector := sector file + 1\<rparr>"
  from fat_table_get_io_ok [OF assms, of "cluster ?file1"]
  obtain vol1 d1 where
    t: "fat_table_get vol d (cluster ?file1) = (Some (fat_entry vol d (cluster ?file1)), vol1, d1)"
    and ok1: "io_ok vol1 d1" and g1: "geometry vol1 = geometry vol" by blast
  show ?thesis
    using True assms t ok1 g1
    by (auto simp: fat_file_addr_resolve_def Let_def)
qed

lemma fat_file_read_fetch_io_ok:
  assumes "io_ok vol d" and "sector_size vol = 512" and "unat (rw_offset file) \<le> 512"
  shows "\<exists>file' vol' d'.
           fat_file_read_fetch file vol d = (True, file', vol', d') \<and> io_ok vol' d' \<and>
           geometry vol' = geometry vol \<and> glob_offset file' = glob_offset file \<and>
           unat (rw_offset file') < 512"
proof (cases "ucast (sector_size vol) \<le> rw_offset file")
  case False
  then have "unat (rw_offset file) < 512"
    using assms(2) by (simp add: word_le_nat_alt)
  with False assms(1) show ?thesis by (simp add: fat_file_read_fetch_def)
next
  case True
  then have "unat (rw_offset file) = 512"
    using assms(2,3) by (simp add: word_le_nat_alt)
  then have rw: "rw_offset file = 512" by (simp add: word_unat_eq_iff)
  from fat_file_addr_resolve_io_ok [OF assms(1), of "file"]
  obtain ok file1 vol1 d1 where
    r: "fat_file_addr_resolve file vol d = (ok, file1, vol1, d1)" and ok1: "io_ok vol1 d1"
    and g1: "geometry vol1 = geometry vol" and go: "glob_offset file1 = glob_offset file"
    and ro: "rw_offset file1 = 0"
    using True assms(2) rw by auto
  from fat_read_io_ok [OF ok1, of "sector file1"]
  obtain vol2 d2 where rd: "fat_read vol1 d1 (sector file1) = (True, vol2, d2)"
    and ok2: "io_ok vol2 d2" and g2: "geometry vol2 = geometry vol1" by blast
  show ?thesis
    using True r rd ok2 g2 g1 go ro by (simp add: fat_file_read_fetch_def)
qed

lemma fat_file_read_loop_count:
  assumes "io_ok vol d" and "sector_size vol = 512" and "unat (rw_offset file) \<le> 512"
    and "glob_offset file < fsize"
  shows "\<exists>file' out' vol' d'.
           fat_file_read_loop count fsize file vol d out status =
             Some (FSTATUS_OK, file', out',
                   status + of_nat (min count (unat fsize - unat (glob_offset file))), vol', d') \<and>
           unat (glob_offset file') =
             unat (glob_offset file) + min count (unat fsize - unat (glob_offset file)) \<and>
           length out' = length out + min count (unat fsize - unat (glob_offset file))"
  using assms
proof (induction count arbitrary: "file" vol d out status)
  case 0
  then show ?case by simp
next
  case (Suc count)
  from fat_file_read_fetch_io_ok [OF Suc.prems(1,2,3)]
  obtain file1 vol1 d1 where
    f: "fat_file_read_fetch file vol d = (True, file1, vol1, d1)" and ok1: "io_ok vol1 d1"
    and g1: "geometry vol1 = geometry vol" and go: "glob_offset file1 = glob_offset file"
    and rw: "unat (rw_offset file1) < 512" by blast
  from g1 Suc.prems(2) have ss1: "sector_size vol1 = 512" by (simp add: geometry_def)
  let ?file2 = "file1\<lparr>rw_offset := rw_offset file1 + 1, glob_offset := glob_offset file1 + 1\<rparr>"
  let ?out2 = "out @ [buffer vol1 ! unat (rw_offset file1)]"
  have lt: "unat (glob_offset file) < unat fsize"
    using Suc.prems(4) by (simp add: word_less_nat_alt)
  have g2: "unat (glob_offset ?file2) = unat (glob_offset file) + 1"
    using unat_suc_word [OF Suc.prems(4)] go by simp
  have rw2: "unat (rw_offset ?file2) \<le> 512"
  proof -
    have "rw_offset file1 < 512" using rw by (simp add: word_less_nat_alt)
    from unat_suc_word [OF this] rw show ?thesis by simp
  qed
  show ?case
  proof (cases "fsize \<le> glob_offset ?file2")
    case True
    then have "unat fsize = unat (glob_offset file) + 1"
      using lt g2 by (simp add: word_le_nat_alt)
    then have m: "min (Suc count) (unat fsize - unat (glob_offset file)) = 1" by simp
    show ?thesis
      using f rw True g2 unfolding m
      by (simp add: Let_def)
  next
    case False
    then have lt2: "glob_offset ?file2 < fsize" by simp
    then have "unat (glob_offset file) + 1 < unat fsize"
      using g2 by (simp add: word_less_nat_alt)
    then have m: "min (Suc count) (unat fsize - unat (glob_offset file)) =
                  Suc (min count (unat fsize - unat (glob_offset ?file2)))"
      using g2 by simp
    from Suc.IH [OF ok1 ss1 rw2 lt2, of ?out2 "status + 1"]
    obtain file' out' vol' d' where
      rec: "fat_file_read_loop count fsize ?file2 vol1 d1 ?out2 (status + 1) =
              Some (FSTATUS_OK, file', out',
                    status + 1 + of_nat (min count (unat fsize - unat (glob_offset ?file2))),
                    vol', d')"
      and gl: "unat (glob_offset file') =
                 unat (glob_offset ?file2) + min count (unat fsize - unat (glob_offset ?file2))"
      and ln: "length out' = length ?out2 + min count (unat fsize - unat (glob_offset ?file2))"
      by blast
    have "fat_file_read_loop (Suc count) fsize file vol d out status =
            Some (FSTATUS_OK, file', out',
                  status + of_nat (min (Suc count) (unat fsize - unat (glob_offset file))),
                  vol', d')"
      using f rw False rec unfolding m by (simp add: Let_def)
    moreover have "unat (glob_offset file') =
        unat (glob_offset file) + min (Suc count) (unat fsize - unat (glob_offset file))"
      using gl g2 unfolding m by simp
    moreover have "length out' =
        length out + min (Suc count) (unat fsize - unat (glob_offset file))"
      using ln unfolding m by simp
    ultimately show ?thesis by blast
  qed
qed

lemma fat_file_read_before_eof:
  assumes "io_ok vol d" and "sector_size vol = 512" and "unat (rw_offset file) \<le> 512"
    and "glob_offset file < size file"
  shows "\<exists>file' out vol' d'.
           fat_file_read file vol d count =
             Some (FSTATUS_OK, file', out,
                   of_nat (min (unat count) (unat (size file) - unat (glob_offset file))),
                   vol', d') \<and>
           length out = min (unat count) (unat (size file) - unat (glob_offset file)) \<and>
           unat (glob_offset file') = unat (glob_offset file) + length out \<and>
           glob_offset file' \<le> size file"
proof -
  from fat_read_io_ok [OF assms(1), of "sector file"]
  obtain vol1 d1 where r: "fat_read vol d (sector file) = (True, vol1, d1)"
    and ok1: "io_ok vol1 d1" and g1: "geometry vol1 = geometry vol" by blast
  from g1 assms(2) have ss1: "sector_size vol1 = 512" by (simp add: geometry_def)
  from fat_file_read_loop_count [OF ok1 ss1 assms(3,4), of "unat count" "[]" 0]
  obtain file' out vol' d' where
    l: "fat_file_read_loop (unat count) (size file) file vol1 d1 [] 0 =
          Some (FSTATUS_OK, file', out,
                of_nat (min (unat count) (unat (size file) - unat (glob_offset file))), vol', d')"
    and gl: "unat (glob_offset file') =
               unat (glob_offset file) + min (unat count) (unat (size file) - unat (glob_offset file))"
    and ln: "length out = min (unat count) (unat (size file) - unat (glob_offset file))"
    by auto
  have "unat (glob_offset file) < unat (size file)"
    using assms(4) by (simp add: word_less_nat_alt)
  then have "glob_offset file' \<le> size file"
    using gl by (simp add: word_le_nat_alt)
  with r l gl ln show ?thesis by (simp add: fat_file_read_def)
qed

lemma io_ok_vol_C_blank: "io_ok vol_C disk_blank"
  by (simp add: io_ok_def no_faults_def sectors_512_def cache_coherent_def vol_C_def
                disk_blank_def)

text \<open>Spec scenario 5: \<open>read (200)\<close> at the start of a file of 100 bytes delivers 100.\<close>

lemma fat_file_read_scenario_5:
  "\<exists>file' out vol' d'.
     fat_file_read file_100 vol_C disk_blank 200 = Some (FSTATUS_OK, file', out, 100, vol', d') \<and>
     length out = 100 \<and> glob_offset file' = 100"
proof -
  have ss: "sector_size vol_C = 512" by (simp add: vol_C_def)
  have rw: "unat (rw_offset file_100) \<le> 512" by (simp add: file_100_def)
  have lt: "glob_offset file_100 < size file_100" by (simp add: file_100_def)
  from fat_file_read_before_eof [OF io_ok_vol_C_blank ss rw lt, of 200]
  show ?thesis by (auto simp: file_100_def word_unat_eq_iff)
qed

text \<open>
  C2 at a file of 100 bytes whose cursor is at the end (\<open>glob_offset = size = 100\<close>):
  \<open>fat_file_read\<close> of one byte returns \<open>FSTATUS_OK\<close>, delivers one byte, reports the
  count 1 and leaves \<open>glob_offset = 101\<close>.
\<close>

theorem fat_file_read_at_eof:
  "glob_offset (file_100\<lparr>rw_offset := 100, glob_offset := 100\<rparr>) =
     size (file_100\<lparr>rw_offset := 100, glob_offset := 100\<rparr>) \<and>
   map_option (\<lambda>(status, file', out, count, vol', d'). (status, glob_offset file', count, length out))
     (fat_file_read (file_100\<lparr>rw_offset := 100, glob_offset := 100\<rparr>) vol_C disk_blank 1) =
   Some (FSTATUS_OK, 101, 1, 1)"
  by code_simp

section \<open>LFN checksum in fat\_dir\_read\<close>

text \<open>
  The step of \<open>fat_dir_read\<close> at an in-use short entry. With a nonzero checksum from
  the LFN slots before it that differs from the entry's own, the result is
  \<open>FSTATUS_ERROR\<close>; with the checksum 0 the result is \<open>FSTATUS_OK\<close>, whatever the
  entry's checksum is.
\<close>

lemma fat_dir_read_loop_checksum_error:
  assumes "fat_read vol d (sector dir) = (True, vol1, d1)"
    and "unat (rw_offset dir) + 32 \<le> 512"
    and "buffer vol1 ! unat (rw_offset dir) \<noteq> 0x00"
    and "buffer vol1 ! unat (rw_offset dir) \<noteq> 0xE5"
    and "buffer vol1 ! unat (rw_offset dir) \<noteq> 0x05"
    and "buffer vol1 ! (unat (rw_offset dir) + SFN_ATTR) AND ATTR_LFN \<noteq> ATTR_LFN"
    and "lfn_crc \<noteq> 0"
    and "lfn_crc \<noteq> fat_dir_sfn_crc (buffer vol1) (unat (rw_offset dir))"
  shows "fat_dir_read_loop lfn_crc name_len dir info vol d =
           Some (FSTATUS_ERROR, dir, info, vol1, d1)"
  using assms by (subst fat_dir_read_loop.simps) simp

lemma fat_dir_read_loop_checksum_zero:
  assumes "fat_read vol d (sector dir) = (True, vol1, d1)"
    and "unat (rw_offset dir) + 32 \<le> 512"
    and "buffer vol1 ! unat (rw_offset dir) \<noteq> 0x00"
    and "buffer vol1 ! unat (rw_offset dir) \<noteq> 0xE5"
    and "buffer vol1 ! unat (rw_offset dir) \<noteq> 0x05"
    and "buffer vol1 ! (unat (rw_offset dir) + SFN_ATTR) AND ATTR_LFN \<noteq> ATTR_LFN"
  shows "\<exists>dir' info' vol' d'.
           fat_dir_read_loop 0 name_len dir info vol d = Some (FSTATUS_OK, dir', info', vol', d')"
  using assms by (subst fat_dir_read_loop.simps) simp

text \<open>
  C10 at a directory whose short entry \<open>HELLO   TXT\<close> (checksum 241) follows one LFN
  slot with the checksum byte 0: \<open>fat_dir_read\<close> returns \<open>FSTATUS_OK\<close> and delivers
  the short name with \<open>name_length = 20\<close> (the 9 characters of the LFN slot and the 11
  of the short name).
\<close>

theorem fat_dir_read_zero_checksum:
  "dir_sector_lfn0 ! 13 = 0 \<and> fat_dir_sfn_crc dir_sector_lfn0 32 = 241 \<and>
   map_option (\<lambda>(status, dir', info', vol', d').
                 (status, name_length info', map (name info') [0..<11]))
     (fat_dir_read dir_root info_blank vol_C disk_dir) =
   Some (FSTATUS_OK, 20, [0x48, 0x45, 0x4C, 0x4C, 0x4F, 0x20, 0x20, 0x20, 0x54, 0x58, 0x54])"
  by code_simp

end
